theory Spec2Isabelle
  imports Complex_Main
begin

section \<open>Role-gated navigation and the protected route (React components)\<close>

text \<open>
  \<^verbatim>\<open>export type UserRole = 'Super Admin' | 'Stock Manager' | 'Cashier';\<close>
  The union of string literals is a closed enumeration.
\<close>

datatype UserRole = Super_Admin | Stock_Manager | Cashier

text \<open>
  An entry of a \<^verbatim>\<open>navItems\<close> array. The \<^verbatim>\<open>icon\<close> field holds a React
  component; it is kept by its name.
\<close>

record nav_item =
  nav_to :: string
  nav_icon :: string
  nav_label :: string
  nav_roles :: "UserRole list"

text \<open>\<^verbatim>\<open>navItems\<close> of \<^verbatim>\<open>components/layout/Sidebar.tsx\<close>.\<close>

definition Sidebar_navItems :: "nav_item list" where
  "Sidebar_navItems =
    [\<lparr>nav_to = ''/'', nav_icon = ''LayoutDashboard'', nav_label = ''Dashboard'',
        nav_roles = [Super_Admin, Stock_Manager, Cashier]\<rparr>,
     \<lparr>nav_to = ''/pos'', nav_icon = ''ShoppingCart'', nav_label = ''POS'',
        nav_roles = [Super_Admin, Cashier]\<rparr>,
     \<lparr>nav_to = ''/sales'', nav_icon = ''ClipboardList'', nav_label = ''Sales History'',
        nav_roles = [Super_Admin, Stock_Manager, Cashier]\<rparr>,
     \<lparr>nav_to = ''/inventory'', nav_icon = ''Boxes'', nav_label = ''Inventory'',
        nav_roles = [Super_Admin, Stock_Manager, Cashier]\<rparr>,
     \<lparr>nav_to = ''/products'', nav_icon = ''Tag'', nav_label = ''Products'',
        nav_roles = [Super_Admin, Stock_Manager]\<rparr>,
     \<lparr>nav_to = ''/categories'', nav_icon = ''Tag'', nav_label = ''Categories'',
        nav_roles = [Super_Admin, Stock_Manager]\<rparr>,
     \<lparr>nav_to = ''/suppliers'', nav_icon = ''Building'', nav_label = ''Suppliers'',
        nav_roles = [Super_Admin, Stock_Manager]\<rparr>,
     \<lparr>nav_to = ''/purchase-orders'', nav_icon = ''Truck'', nav_label = ''Purchase Orders'',
        nav_roles = [Super_Admin, Stock_Manager]\<rparr>,
     \<lparr>nav_to = ''/users'', nav_icon = ''Users'', nav_label = ''Users'',
        nav_roles = [Super_Admin]\<rparr>,
     \<lparr>nav_to = ''/settings'', nav_icon = ''Settings'', nav_label = ''Settings'',
        nav_roles = [Super_Admin]\<rparr>]"

text \<open>\<^verbatim>\<open>navItems\<close> of \<^verbatim>\<open>components/layout/BottomNav.tsx\<close>.\<close>

definition BottomNav_navItems :: "nav_item list" where
  "BottomNav_navItems =
    [\<lparr>nav_to = ''/'', nav_icon = ''LayoutDashboard'', nav_label = ''Dashboard'',
        nav_roles = [Super_Admin, Stock_Manager, Cashier]\<rparr>,
     \<lparr>nav_to = ''/pos'', nav_icon = ''ShoppingCart'', nav_label = ''POS'',
        nav_roles = [Super_Admin, Cashier]\<rparr>,
     \<lparr>nav_to = ''/inventory'', nav_icon = ''Boxes'', nav_label = ''Inventory'',
        nav_roles = [Super_Admin, Stock_Manager, Cashier]\<rparr>,
     \<lparr>nav_to = ''/settings'', nav_icon = ''Menu'', nav_label = ''More'',
        nav_roles = [Super_Admin, Stock_Manager, Cashier]\<rparr>]"

text \<open>
  Both components render
  \<^verbatim>\<open>navItems.map((item) => role && item.roles.includes(role) ? <NavLink to={item.to} .../> : null)\<close>
  where \<^verbatim>\<open>role\<close> is \<^verbatim>\<open>UserRole | null\<close>. The rendered links are the items that pass
  the test, in the order of the array.
\<close>

definition item_shown :: "UserRole option \<Rightarrow> nav_item \<Rightarrow> bool" where
  "item_shown role item =
    (case role of None \<Rightarrow> False | Some r \<Rightarrow> r \<in> set (nav_roles item))"

definition Sidebar :: "UserRole option \<Rightarrow> string list" where
  "Sidebar role = map nav_to (filter (item_shown role) Sidebar_navItems)"

definition BottomNav :: "UserRole option \<Rightarrow> string list" where
  "BottomNav role = map nav_to (filter (item_shown role) BottomNav_navItems)"

text \<open>
  The part of the auth context that \<^verbatim>\<open>App.tsx\<close> reads: \<^verbatim>\<open>session\<close>
  (\<^verbatim>\<open>Session | null\<close>, the session object itself is opaque here) and \<^verbatim>\<open>loading\<close>.
\<close>

record 's auth =
  session :: "'s option"
  loading :: bool

datatype page =
  LoginPage | SignUpPage | ForgotPasswordPage | ResetPasswordPage
  | DashboardPage | PosPage | SalesPage | InventoryPage | ProductsPage | CategoriesPage
  | SuppliersPage | PurchaseOrdersPage | UsersPage | SettingsPage

text \<open>
  What a route renders: the loading screen, a \<^verbatim>\<open><Navigate to=... replace?/>\<close>, a page,
  or \<^verbatim>\<open><MainLayout/>\<close> with the matched child route in its \<^verbatim>\<open><Outlet/>\<close>.
\<close>

datatype element =
  LoadingScreen
  | Navigate string bool
  | Page page
  | MainLayout element

text \<open>
  \<^verbatim>\<open>ProtectedRoute\<close>: the loading screen while loading, a redirect to \<^verbatim>\<open>/login\<close>
  without a session, the layout otherwise. The argument \<open>outlet\<close> is the element of the
  matched child route.
\<close>

definition ProtectedRoute :: "'s auth \<Rightarrow> element \<Rightarrow> element" where
  "ProtectedRoute a outlet =
    (if loading a then LoadingScreen
     else if session a = None then Navigate ''/login'' True
     else MainLayout outlet)"

text \<open>
  The children of the protected layout route. The argument is the path pattern that the
  router matched; every path that is none of the listed ones falls to \<^verbatim>\<open>path="*"\<close>.
\<close>

definition protected_child :: "string \<Rightarrow> element" where
  "protected_child path =
    (if path = ''/'' then Page DashboardPage
     else if path = ''/pos'' then Page PosPage
     else if path = ''/sales'' then Page SalesPage
     else if path = ''/inventory'' then Page InventoryPage
     else if path = ''/products'' then Page ProductsPage
     else if path = ''/categories'' then Page CategoriesPage
     else if path = ''/suppliers'' then Page SuppliersPage
     else if path = ''/purchase-orders'' then Page PurchaseOrdersPage
     else if path = ''/users'' then Page UsersPage
     else if path = ''/settings'' then Page SettingsPage
     else Navigate ''/'' False)"

definition AppRoutes :: "'s auth \<Rightarrow> string \<Rightarrow> element" where
  "AppRoutes a path =
    (if path = ''/login'' then (if session a \<noteq> None then Navigate ''/'' False else Page LoginPage)
     else if path = ''/signup'' then (if session a \<noteq> None then Navigate ''/'' False else Page SignUpPage)
     else if path = ''/forgot-password''
       then (if session a \<noteq> None then Navigate ''/'' False else Page ForgotPasswordPage)
     else if path = ''/reset-password'' then Page ResetPasswordPage
     else ProtectedRoute a (protected_child path))"

text \<open>The pages that occur in a rendered element, and the pages behind the protected route.\<close>

fun pages_of :: "element \<Rightarrow> page list" where
  "pages_of LoadingScreen = []"
| "pages_of (Navigate t r) = []"
| "pages_of (Page p) = [p]"
| "pages_of (MainLayout e) = pages_of e"

fun uses_layout :: "element \<Rightarrow> bool" where
  "uses_layout (MainLayout e) = True"
| "uses_layout e = False"

definition protected_pages :: "page list" where
  "protected_pages =
    [DashboardPage, PosPage, SalesPage, InventoryPage, ProductsPage, CategoriesPage,
     SuppliersPage, PurchaseOrdersPage, UsersPage, SettingsPage]"

section \<open>The database: tables, constraints and trigger functions\<close>

text \<open>
  The repository holds two migration scripts. The initial schema
  (\<^verbatim>\<open>20250101000000_initial_schema.sql\<close>) declares its tables with \<^verbatim>\<open>CHECK\<close>
  constraints and generated columns, among them \<^verbatim>\<open>batches\<close>, the ledger
  \<^verbatim>\<open>inventory_movements\<close>, \<^verbatim>\<open>sales\<close> and \<^verbatim>\<open>sale_items\<close>. The second script declares
  \<^verbatim>\<open>profiles\<close>, \<^verbatim>\<open>product_batches\<close>, \<^verbatim>\<open>purchase_orders\<close>, \<^verbatim>\<open>purchase_order_items\<close>,
  \<^verbatim>\<open>sales\<close>, \<^verbatim>\<open>sale_items\<close> and the functions \<^verbatim>\<open>handle_new_user\<close>,
  \<^verbatim>\<open>update_stock_from_sale\<close> and \<^verbatim>\<open>update_stock_from_purchase\<close>.

  A statement that fails is rolled back as a whole, so every operation returns either an
  error or the new database. Columns filled from the clock (\<^verbatim>\<open>created_at\<close>,
  \<^verbatim>\<open>updated_at\<close>, \<^verbatim>\<open>order_date\<close>, \<^verbatim>\<open>sale_date\<close>) are left out of the rows. Foreign keys
  are checked where the referenced table is part of the state below.

  Both scripts enable row-level security on every table. The policies of the second
  schema depend on the role of the caller, and its operations take the caller as an
  argument. The policies of the initial schema on \<^verbatim>\<open>batches\<close>, \<^verbatim>\<open>sales\<close> and
  \<^verbatim>\<open>sale_items\<close> are \<^verbatim>\<open>FOR ALL USING (auth.role() = 'authenticated')\<close>; the operations
  on these tables are those of an authenticated caller, whom the policies admit for every
  row and every command.
\<close>

datatype sql_error =
  unique_violation
  | foreign_key_violation
  | not_null_violation
  | check_violation
  | numeric_value_out_of_range
  | generated_always
  | insufficient_privilege

type_synonym uuid = string
type_synonym date = string

text \<open>\<^verbatim>\<open>INT\<close> is a signed 32-bit integer; arithmetic that leaves the range raises an error.\<close>

definition int4_ok :: "int \<Rightarrow> bool" where
  "int4_ok n = (- 2147483648 \<le> n \<and> n \<le> 2147483647)"

definition int4_minus :: "int \<Rightarrow> int \<Rightarrow> sql_error + int" where
  "int4_minus a b = (if int4_ok (a - b) then Inr (a - b) else Inl numeric_value_out_of_range)"

text \<open>
  \<^verbatim>\<open>NUMERIC(10, 2)\<close>: a value assigned to such a column is rounded to two decimal places,
  ties away from zero, and must then be below \<open>10\<^sup>8\<close> in absolute value. Unconstrained
  \<^verbatim>\<open>numeric\<close> is exact; both are read as rational numbers.
\<close>

definition numeric_round2 :: "rat \<Rightarrow> rat" where
  "numeric_round2 x = sgn x * (of_int \<lfloor>\<bar>x\<bar> * 100 + 1 / 2\<rfloor> / 100)"

definition numeric_10_2 :: "rat \<Rightarrow> sql_error + rat" where
  "numeric_10_2 x =
    (if \<bar>numeric_round2 x\<bar> < 100000000 then Inr (numeric_round2 x)
     else Inl numeric_value_out_of_range)"

subsection \<open>Tables of the second schema\<close>

text \<open>
  \<^verbatim>\<open>auth.users\<close> belongs to the identity service; only the columns that
  \<^verbatim>\<open>handle_new_user\<close> reads are kept. \<^verbatim>\<open>raw_user_meta_data\<close> is a JSON object, read
  only through \<^verbatim>\<open>->>\<close>, which gives the text of a member or \<^verbatim>\<open>NULL\<close>.
\<close>

record auth_users_row =
  au_id :: uuid
  au_email :: "string option"
  raw_user_meta_data :: "string \<rightharpoonup> string"

text \<open>The enum \<^verbatim>\<open>public.user_role\<close> has the three values of \<^typ>\<open>UserRole\<close>.\<close>

record profiles_row =
  profile_id :: uuid
  full_name :: "string option"
  avatar_url :: "string option"
  profile_role :: UserRole

record product_batches_row =
  pb_id :: int
  pb_product_id :: int
  pb_batch_number :: "string option"
  pb_expiry_date :: "date option"
  pb_cost_price :: rat
  pb_selling_price :: rat
  pb_quantity :: int
  pb_supplier_id :: "int option"

datatype purchase_order_status = Pending | Sent | Received | Cancelled

record purchase_orders_row =
  po_id :: int
  po_supplier_id :: int
  po_status :: purchase_order_status
  po_created_by :: "uuid option"

record purchase_order_items_row =
  poi_id :: int
  poi_purchase_order_id :: int
  poi_product_id :: int
  poi_quantity :: int
  poi_unit_cost :: rat
  poi_batch_number :: "string option"
  poi_expiry_date :: "date option"

record sales_row =
  s_id :: int
  s_cashier_id :: uuid
  s_customer_id :: "int option"
  s_total_amount :: rat

record sale_items_row =
  si_id :: int
  si_sale_id :: int
  si_product_batch_id :: int
  si_quantity :: int
  si_unit_price :: rat

subsection \<open>Tables of the initial schema\<close>

record batches_row =
  b_id :: uuid
  b_product_id :: uuid
  b_batch_number :: string
  b_expiry_date :: "date option"
  b_quantity :: int

record inventory_movements_row =
  im_id :: uuid
  im_product_id :: uuid
  im_change_type :: string
  im_quantity :: int
  im_user_id :: "uuid option"
  im_remarks :: "string option"

record initial_sales_row =
  is_id :: uuid
  is_user_id :: uuid
  is_customer_name :: "string option"
  is_customer_contact :: "string option"
  is_subtotal :: rat
  is_discount :: rat
  is_tax :: rat
  is_total :: rat
  is_payment_method :: string
  is_receipt_number :: string

record initial_sale_items_row =
  isi_id :: uuid
  isi_sale_id :: uuid
  isi_product_id :: uuid
  isi_quantity :: int
  isi_price :: rat
  isi_discount :: rat
  isi_total :: rat

subsection \<open>The state\<close>

text \<open>
  The state collects the tables of the second schema, with the identity sequences of
  \<^verbatim>\<open>product_batches.id\<close> and \<^verbatim>\<open>sale_items.id\<close>
  (\<^verbatim>\<open>GENERATED ALWAYS AS IDENTITY\<close>), and those tables of the initial schema that the
  properties below speak about. Where both scripts declare a table of the same name, the
  one of the initial schema carries the prefix \<open>initial_\<close>. The ledger
  \<^verbatim>\<open>inventory_movements\<close> is declared by the initial schema only; it is part of the state
  so that what the functions of the second schema do to it can be stated.
\<close>

record database =
  auth_users :: "auth_users_row list"
  profiles :: "profiles_row list"
  product_batches :: "product_batches_row list"
  product_batches_id_seq :: int
  purchase_orders :: "purchase_orders_row list"
  purchase_order_items :: "purchase_order_items_row list"
  sales :: "sales_row list"
  sale_items :: "sale_items_row list"
  sale_items_id_seq :: int
  batches :: "batches_row list"
  inventory_movements :: "inventory_movements_row list"
  initial_sales :: "initial_sales_row list"
  initial_sale_items :: "initial_sale_items_row list"

subsection \<open>Row-level security of the second schema\<close>

text \<open>
  The caller of a statement: \<open>uid\<close> is \<^verbatim>\<open>auth.uid()\<close>, the id of the signed-in user
  or \<^verbatim>\<open>NULL\<close>; \<open>bypassrls\<close> holds of a caller whom policies do not bind (a superuser,
  the owner of the tables, a role with \<^verbatim>\<open>BYPASSRLS\<close>).
\<close>

record caller =
  uid :: "uuid option"
  bypassrls :: bool

text \<open>
  \<^verbatim>\<open>get_my_role()\<close>: \<^verbatim>\<open>SELECT role FROM public.profiles WHERE id = auth.uid();\<close>
  The row read is the caller's own profile, which the policy
  \<^verbatim>\<open>USING (auth.uid() = id)\<close> on \<^verbatim>\<open>profiles\<close> lets the caller see; without a
  profile the result is \<^verbatim>\<open>NULL\<close>.
\<close>

definition get_my_role :: "caller \<Rightarrow> database \<Rightarrow> UserRole option" where
  "get_my_role c db =
    (case uid c of
       None \<Rightarrow> None
     | Some u \<Rightarrow> map_option profile_role (find (\<lambda>p. profile_id p = u) (profiles db)))"

text \<open>
  \<^verbatim>\<open>FOR ALL USING (get_my_role() IN ('Super Admin', 'Stock Manager'))\<close>, the policy
  "Stock Managers and Admins can manage ..." on \<^verbatim>\<open>product_batches\<close>,
  \<^verbatim>\<open>purchase_orders\<close> and \<^verbatim>\<open>purchase_order_items\<close>. It is the only policy of these
  tables that covers \<^verbatim>\<open>INSERT\<close> and \<^verbatim>\<open>UPDATE\<close>, and on the two purchase tables
  the only one that covers \<^verbatim>\<open>SELECT\<close>. The test does not look at the row: a caller
  is admitted for every row or for none. A \<^verbatim>\<open>NULL\<close> role fails the test.
\<close>

definition managers_policy :: "caller \<Rightarrow> database \<Rightarrow> bool" where
  "managers_policy c db =
    (bypassrls c \<or> get_my_role c db \<in> set [Some Super_Admin, Some Stock_Manager])"

text \<open>
  \<^verbatim>\<open>FOR INSERT WITH CHECK (get_my_role() IN ('Super Admin', 'Stock Manager', 'Cashier'))\<close>,
  the policy "Cashiers and above can create sales and related data" on \<^verbatim>\<open>sale_items\<close>.
\<close>

definition cashiers_and_above_policy :: "caller \<Rightarrow> database \<Rightarrow> bool" where
  "cashiers_and_above_policy c db =
    (bypassrls c
     \<or> get_my_role c db \<in> set [Some Super_Admin, Some Stock_Manager, Some Cashier])"

subsection \<open>Signup: \<^verbatim>\<open>handle_new_user\<close>\<close>

text \<open>
  \<^verbatim>\<open>
  INSERT INTO public.profiles (id, full_name, avatar_url, role)
  VALUES (NEW.id, NEW.raw_user_meta_data->>'full_name',
          NEW.raw_user_meta_data->>'avatar_url', 'Cashier');
  \<close>
  \<^verbatim>\<open>profiles.id\<close> is the primary key and references \<^verbatim>\<open>auth.users(id)\<close>. The function
  is \<^verbatim>\<open>SECURITY DEFINER\<close>: it runs with the rights of its owner, whom the policies do
  not bind, whoever signs up.
\<close>

definition handle_new_user :: "auth_users_row \<Rightarrow> database \<Rightarrow> sql_error + database" where
  "handle_new_user NEW db =
    (let profile = \<lparr>profile_id = au_id NEW,
                     full_name = raw_user_meta_data NEW ''full_name'',
                     avatar_url = raw_user_meta_data NEW ''avatar_url'',
                     profile_role = Cashier\<rparr>
     in if profile_id profile \<in> profile_id ` set (profiles db) then Inl unique_violation
        else if profile_id profile \<notin> au_id ` set (auth_users db) then Inl foreign_key_violation
        else Inr (db\<lparr>profiles := profiles db @ [profile]\<rparr>))"

text \<open>
  The trigger \<^verbatim>\<open>on_auth_user_created\<close> runs \<^verbatim>\<open>handle_new_user\<close> after each insert on
  \<^verbatim>\<open>auth.users\<close>; an error of the trigger aborts the insert.
\<close>

definition insert_auth_users :: "auth_users_row \<Rightarrow> database \<Rightarrow> sql_error + database" where
  "insert_auth_users NEW db =
    (if au_id NEW \<in> au_id ` set (auth_users db) then Inl unique_violation
     else handle_new_user NEW (db\<lparr>auth_users := auth_users db @ [NEW]\<rparr>))"

subsection \<open>Sales: \<^verbatim>\<open>update_stock_from_sale\<close>\<close>

text \<open>
  \<^verbatim>\<open>UPDATE public.product_batches SET quantity = quantity - NEW.quantity WHERE id = NEW.product_batch_id;\<close>
  on the rows of the table.
\<close>

fun set_quantity_minus ::
  "int \<Rightarrow> int \<Rightarrow> product_batches_row list \<Rightarrow> sql_error + product_batches_row list" where
  "set_quantity_minus batch_id n [] = Inr []"
| "set_quantity_minus batch_id n (b # bs) =
    (if pb_id b = batch_id then
       (case int4_minus (pb_quantity b) n of
          Inl e \<Rightarrow> Inl e
        | Inr q \<Rightarrow>
            (case set_quantity_minus batch_id n bs of
               Inl e \<Rightarrow> Inl e
             | Inr bs' \<Rightarrow> Inr (b\<lparr>pb_quantity := q\<rparr> # bs')))
     else
       (case set_quantity_minus batch_id n bs of
          Inl e \<Rightarrow> Inl e
        | Inr bs' \<Rightarrow> Inr (b # bs')))"

text \<open>
  The trigger function is not \<^verbatim>\<open>SECURITY DEFINER\<close>: its \<^verbatim>\<open>UPDATE\<close> runs with the
  rights of the caller who inserts the sale item. For a caller whom the policy on
  \<^verbatim>\<open>product_batches\<close> does not admit, the statement finds no row to update and changes
  nothing, without an error.
\<close>

definition update_stock_from_sale ::
  "caller \<Rightarrow> sale_items_row \<Rightarrow> database \<Rightarrow> sql_error + database" where
  "update_stock_from_sale c NEW db =
    (if managers_policy c db then
       (case set_quantity_minus (si_product_batch_id NEW) (si_quantity NEW)
               (product_batches db) of
          Inl e \<Rightarrow> Inl e
        | Inr bs \<Rightarrow> Inr (db\<lparr>product_batches := bs\<rparr>))
     else Inr db)"

text \<open>
  The values of an \<^verbatim>\<open>INSERT INTO public.sale_items\<close>; all four columns are
  \<^verbatim>\<open>NOT NULL\<close> and the id is generated.
\<close>

record sale_items_values =
  v_sale_id :: int
  v_product_batch_id :: int
  v_quantity :: int
  v_unit_price :: rat

text \<open>
  Inserting one row on behalf of a caller, by an \<^verbatim>\<open>INSERT\<close> without \<^verbatim>\<open>RETURNING\<close>:
  the values are converted to the column types, the id is drawn from the sequence, the
  new row is tested against the insert policy of \<^verbatim>\<open>sale_items\<close>, the primary key and
  the two foreign keys are checked (the foreign key checks read the referenced tables
  whatever the caller's rights are), and the trigger \<^verbatim>\<open>after_sale_item_insert\<close> runs
  \<^verbatim>\<open>update_stock_from_sale\<close> for the new row.
\<close>

definition insert_sale_items ::
  "caller \<Rightarrow> sale_items_values \<Rightarrow> database \<Rightarrow> sql_error + database" where
  "insert_sale_items c v db =
    (if \<not> int4_ok (v_quantity v) then Inl numeric_value_out_of_range
     else case numeric_10_2 (v_unit_price v) of
       Inl e \<Rightarrow> Inl e
     | Inr price \<Rightarrow>
         (let NEW = \<lparr>si_id = sale_items_id_seq db, si_sale_id = v_sale_id v,
                     si_product_batch_id = v_product_batch_id v,
                     si_quantity = v_quantity v, si_unit_price = price\<rparr>
          in if \<not> cashiers_and_above_policy c db then Inl insufficient_privilege
             else if si_id NEW \<in> si_id ` set (sale_items db) then Inl unique_violation
             else if si_sale_id NEW \<notin> s_id ` set (sales db) then Inl foreign_key_violation
             else if si_product_batch_id NEW \<notin> pb_id ` set (product_batches db)
               then Inl foreign_key_violation
             else update_stock_from_sale c NEW
                    (db\<lparr>sale_items := sale_items db @ [NEW],
                        sale_items_id_seq := sale_items_id_seq db + 1\<rparr>)))"

text \<open>
  The line items of one sale, inserted one after the other in one transaction: the first
  error aborts all of it.
\<close>

fun insert_sale_items_all ::
  "caller \<Rightarrow> sale_items_values list \<Rightarrow> database \<Rightarrow> sql_error + database" where
  "insert_sale_items_all c [] db = Inr db"
| "insert_sale_items_all c (v # vs) db =
    (case insert_sale_items c v db of
       Inl e \<Rightarrow> Inl e
     | Inr db' \<Rightarrow> insert_sale_items_all c vs db')"

subsection \<open>Purchases: \<^verbatim>\<open>update_stock_from_purchase\<close>\<close>

text \<open>
  \<^verbatim>\<open>SELECT * INTO item FROM public.purchase_order_items WHERE id = p_purchase_order_item_id;\<close>
  takes the first row found; when there is none, every field of \<^verbatim>\<open>item\<close> is
  \<^verbatim>\<open>NULL\<close> and the insert that follows violates \<^verbatim>\<open>NOT NULL\<close>. Otherwise
  \<^verbatim>\<open>
  INSERT INTO public.product_batches
    (product_id, batch_number, expiry_date, cost_price, selling_price, quantity)
  VALUES (item.product_id, item.batch_number, item.expiry_date,
          item.unit_cost, item.unit_cost * 1.25, item.quantity);
  \<close>
  with the id drawn from the sequence and \<^verbatim>\<open>supplier_id\<close> left \<^verbatim>\<open>NULL\<close>. The product
  of the new batch is the product of the item.

  The function is not \<^verbatim>\<open>SECURITY DEFINER\<close>: both statements run with the rights of
  the caller. A caller whom the policy does not admit sees no row of
  \<^verbatim>\<open>purchase_order_items\<close>, and the row to be inserted into \<^verbatim>\<open>product_batches\<close> fails
  the policy, which is tested before the constraints of the table.
\<close>

definition update_stock_from_purchase ::
  "caller \<Rightarrow> int \<Rightarrow> database \<Rightarrow> sql_error + database" where
  "update_stock_from_purchase c p_purchase_order_item_id db =
    (if \<not> managers_policy c db then Inl insufficient_privilege
     else case find (\<lambda>i. poi_id i = p_purchase_order_item_id) (purchase_order_items db) of
       None \<Rightarrow> Inl not_null_violation
     | Some item \<Rightarrow>
         (case numeric_10_2 (poi_unit_cost item) of
            Inl e \<Rightarrow> Inl e
          | Inr cost \<Rightarrow>
              (case numeric_10_2 (poi_unit_cost item * 1.25) of
                 Inl e \<Rightarrow> Inl e
               | Inr price \<Rightarrow>
                   (let batch = \<lparr>pb_id = product_batches_id_seq db,
                                  pb_product_id = poi_product_id item,
                                  pb_batch_number = poi_batch_number item,
                                  pb_expiry_date = poi_expiry_date item,
                                  pb_cost_price = cost,
                                  pb_selling_price = price,
                                  pb_quantity = poi_quantity item,
                                  pb_supplier_id = None\<rparr>
                    in if pb_id batch \<in> pb_id ` set (product_batches db) then Inl unique_violation
                       else Inr (db\<lparr>product_batches := product_batches db @ [batch],
                                    product_batches_id_seq := product_batches_id_seq db + 1\<rparr>)))))"

text \<open>The quantity on hand of a product: the sum over its batches.\<close>

definition on_hand :: "database \<Rightarrow> int \<Rightarrow> int" where
  "on_hand db product =
    sum_list (map pb_quantity (filter (\<lambda>b. pb_product_id b = product) (product_batches db)))"

subsection \<open>Purchase order status\<close>




subsection \<open>Initial schema: \<^verbatim>\<open>batches\<close>\<close>

text \<open>\<^verbatim>\<open>quantity integer NOT NULL CHECK (quantity >= 0)\<close>\<close>

definition batches_check :: "batches_row \<Rightarrow> bool" where
  "batches_check b = (0 \<le> b_quantity b)"

text \<open>
  \<^verbatim>\<open>UPDATE batches SET quantity = ... WHERE id = ...\<close>: the check is evaluated on each
  row that the statement writes.
\<close>

definition update_batches_quantity :: "uuid \<Rightarrow> int \<Rightarrow> database \<Rightarrow> sql_error + database" where
  "update_batches_quantity batch_id q db =
    (if \<not> int4_ok q then Inl numeric_value_out_of_range
     else if \<exists>b \<in> set (batches db). b_id b = batch_id \<and> \<not> batches_check (b\<lparr>b_quantity := q\<rparr>)
       then Inl check_violation
     else Inr (db\<lparr>batches :=
                  map (\<lambda>b. if b_id b = batch_id then b\<lparr>b_quantity := q\<rparr> else b) (batches db)\<rparr>))"

subsection \<open>Initial schema: \<^verbatim>\<open>sales\<close> and \<^verbatim>\<open>sale_items\<close>\<close>

text \<open>
  \<^verbatim>\<open>
  subtotal numeric NOT NULL CHECK (subtotal >= 0),
  discount numeric NOT NULL DEFAULT 0 CHECK (discount >= 0),
  tax numeric NOT NULL DEFAULT 0 CHECK (tax >= 0),
  total numeric NOT NULL CHECK (total >= 0),
  payment_method text NOT NULL CHECK (payment_method IN ('cash', 'card', 'insurance', 'other')),
  receipt_number text NOT NULL UNIQUE
  \<close>
\<close>

definition initial_sales_check :: "initial_sales_row \<Rightarrow> bool" where
  "initial_sales_check s =
    (0 \<le> is_subtotal s \<and> 0 \<le> is_discount s \<and> 0 \<le> is_tax s \<and> 0 \<le> is_total s
     \<and> is_payment_method s \<in> set [''cash'', ''card'', ''insurance'', ''other''])"

text \<open>
  The values of an insert into \<^verbatim>\<open>sales\<close>. A column with a default is optional; the id
  is the value given or the one drawn by \<^verbatim>\<open>gen_random_uuid()\<close>.
\<close>

record initial_sales_values =
  vs_id :: uuid
  vs_user_id :: uuid
  vs_customer_name :: "string option"
  vs_customer_contact :: "string option"
  vs_subtotal :: rat
  vs_discount :: "rat option"
  vs_tax :: "rat option"
  vs_total :: rat
  vs_payment_method :: string
  vs_receipt_number :: string

definition insert_initial_sales :: "initial_sales_values \<Rightarrow> database \<Rightarrow> sql_error + database" where
  "insert_initial_sales v db =
    (let row = \<lparr>is_id = vs_id v, is_user_id = vs_user_id v,
                 is_customer_name = vs_customer_name v,
                 is_customer_contact = vs_customer_contact v,
                 is_subtotal = vs_subtotal v,
                 is_discount = (case vs_discount v of None \<Rightarrow> 0 | Some d \<Rightarrow> d),
                 is_tax = (case vs_tax v of None \<Rightarrow> 0 | Some t \<Rightarrow> t),
                 is_total = vs_total v,
                 is_payment_method = vs_payment_method v,
                 is_receipt_number = vs_receipt_number v\<rparr>
     in if \<not> initial_sales_check row then Inl check_violation
        else if is_id row \<in> is_id ` set (initial_sales db) then Inl unique_violation
        else if is_receipt_number row \<in> is_receipt_number ` set (initial_sales db)
          then Inl unique_violation
        else Inr (db\<lparr>initial_sales := initial_sales db @ [row]\<rparr>))"

text \<open>
  \<^verbatim>\<open>
  quantity integer NOT NULL CHECK (quantity > 0),
  price numeric NOT NULL CHECK (price >= 0),
  discount numeric NOT NULL DEFAULT 0 CHECK (discount >= 0),
  total numeric GENERATED ALWAYS AS (quantity * price - discount) STORED,
  UNIQUE(sale_id, product_id)
  \<close>
\<close>

definition sale_items_total :: "int \<Rightarrow> rat \<Rightarrow> rat \<Rightarrow> rat" where
  "sale_items_total quantity price discount = of_int quantity * price - discount"

definition initial_sale_items_check :: "initial_sale_items_row \<Rightarrow> bool" where
  "initial_sale_items_check i = (0 < isi_quantity i \<and> 0 \<le> isi_price i \<and> 0 \<le> isi_discount i)"

text \<open>
  The values of an insert into \<^verbatim>\<open>sale_items\<close>. \<open>vi_total\<close> is a value written for the
  generated column; anything but the default is refused.
\<close>

record initial_sale_items_values =
  vi_id :: uuid
  vi_sale_id :: uuid
  vi_product_id :: uuid
  vi_quantity :: int
  vi_price :: rat
  vi_discount :: "rat option"
  vi_total :: "rat option"

definition insert_initial_sale_items ::
  "initial_sale_items_values \<Rightarrow> database \<Rightarrow> sql_error + database" where
  "insert_initial_sale_items v db =
    (if vi_total v \<noteq> None then Inl generated_always
     else if \<not> int4_ok (vi_quantity v) then Inl numeric_value_out_of_range
     else
       (let discount = (case vi_discount v of None \<Rightarrow> 0 | Some d \<Rightarrow> d);
            row = \<lparr>isi_id = vi_id v, isi_sale_id = vi_sale_id v,
                    isi_product_id = vi_product_id v,
                    isi_quantity = vi_quantity v, isi_price = vi_price v,
                    isi_discount = discount,
                    isi_total = sale_items_total (vi_quantity v) (vi_price v) discount\<rparr>
        in if \<not> initial_sale_items_check row then Inl check_violation
           else if isi_id row \<in> isi_id ` set (initial_sale_items db) then Inl unique_violation
           else if (isi_sale_id row, isi_product_id row)
                     \<in> (\<lambda>i. (isi_sale_id i, isi_product_id i)) ` set (initial_sale_items db)
             then Inl unique_violation
           else if isi_sale_id row \<notin> is_id ` set (initial_sales db) then Inl foreign_key_violation
           else Inr (db\<lparr>initial_sale_items := initial_sale_items db @ [row]\<rparr>)))"

text \<open>
  The \<^verbatim>\<open>SET\<close> list of an \<^verbatim>\<open>UPDATE sale_items ... WHERE id = ...\<close>: a column is either
  assigned or left as it is, and the generated column is computed again.
\<close>

record initial_sale_items_set =
  set_quantity :: "int option"
  set_price :: "rat option"
  set_discount :: "rat option"
  set_total :: "rat option"

definition assign_sale_item ::
  "initial_sale_items_set \<Rightarrow> initial_sale_items_row \<Rightarrow> initial_sale_items_row" where
  "assign_sale_item u i =
    (let q = (case set_quantity u of None \<Rightarrow> isi_quantity i | Some x \<Rightarrow> x);
         p = (case set_price u of None \<Rightarrow> isi_price i | Some x \<Rightarrow> x);
         d = (case set_discount u of None \<Rightarrow> isi_discount i | Some x \<Rightarrow> x)
     in i\<lparr>isi_quantity := q, isi_price := p, isi_discount := d,
           isi_total := sale_items_total q p d\<rparr>)"

definition update_initial_sale_items ::
  "uuid \<Rightarrow> initial_sale_items_set \<Rightarrow> database \<Rightarrow> sql_error + database" where
  "update_initial_sale_items item_id u db =
    (if set_total u \<noteq> None then Inl generated_always
     else if (case set_quantity u of None \<Rightarrow> False | Some q \<Rightarrow> \<not> int4_ok q)
       then Inl numeric_value_out_of_range
     else if \<exists>i \<in> set (initial_sale_items db).
               isi_id i = item_id \<and> \<not> initial_sale_items_check (assign_sale_item u i)
       then Inl check_violation
     else Inr (db\<lparr>initial_sale_items :=
                  map (\<lambda>i. if isi_id i = item_id then assign_sale_item u i else i)
                    (initial_sale_items db)\<rparr>))"

text \<open>The sum of the totals of the items of a sale.\<close>

definition items_total :: "database \<Rightarrow> uuid \<Rightarrow> rat" where
  "items_total db sale =
    sum_list (map isi_total (filter (\<lambda>i. isi_sale_id i = sale) (initial_sale_items db)))"

subsection \<open>Auxiliary notions for the statements\<close>

text \<open>The database right after the migrations: every table empty, every sequence at 1.\<close>

definition empty_database :: database where
  "empty_database =
    \<lparr>auth_users = [], profiles = [], product_batches = [], product_batches_id_seq = 1,
     purchase_orders = [], purchase_order_items = [], sales = [], sale_items = [],
     sale_items_id_seq = 1, batches = [], inventory_movements = [], initial_sales = [],
     initial_sale_items = []\<rparr>"

text \<open>The quantity that the lines of a sale request from one batch.\<close>

definition requested :: "int \<Rightarrow> sale_items_values list \<Rightarrow> int" where
  "requested batch_id vs =
    sum_list (map v_quantity (filter (\<lambda>v. v_product_batch_id v = batch_id) vs))"

text \<open>The values held by a stored sale item, without its id.\<close>

definition values_of :: "sale_items_row \<Rightarrow> sale_items_values" where
  "values_of i =
    \<lparr>v_sale_id = si_sale_id i, v_product_batch_id = si_product_batch_id i,
     v_quantity = si_quantity i, v_unit_price = si_unit_price i\<rparr>"

text \<open>The quantity stored for a batch.\<close>

definition quantity_of :: "database \<Rightarrow> int \<Rightarrow> int option" where
  "quantity_of db batch_id =
    map_option pb_quantity (find (\<lambda>b. pb_id b = batch_id) (product_batches db))"

section \<open>Theorems\<close>

subsection \<open>Navigation and routes\<close>

lemma Sidebar_routes:
  "Sidebar (Some Super_Admin) =
     [''/'', ''/pos'', ''/sales'', ''/inventory'', ''/products'', ''/categories'',
      ''/suppliers'', ''/purchase-orders'', ''/users'', ''/settings'']"
  "Sidebar (Some Stock_Manager) =
     [''/'', ''/sales'', ''/inventory'', ''/products'', ''/categories'', ''/suppliers'',
      ''/purchase-orders'']"
  "Sidebar (Some Cashier) = [''/'', ''/pos'', ''/sales'', ''/inventory'']"
  by (simp_all add: Sidebar_def Sidebar_navItems_def item_shown_def)

lemma BottomNav_routes:
  "BottomNav (Some Super_Admin) = [''/'', ''/pos'', ''/inventory'', ''/settings'']"
  "BottomNav (Some Stock_Manager) = [''/'', ''/inventory'', ''/settings'']"
  "BottomNav (Some Cashier) = [''/'', ''/pos'', ''/inventory'', ''/settings'']"
  by (simp_all add: BottomNav_def BottomNav_navItems_def item_shown_def)

text \<open>
  Claim C9. The sidebar links to \<^verbatim>\<open>/settings\<close> and to \<^verbatim>\<open>/users\<close> exactly for the role
  Super Admin, the bottom navigation links to \<^verbatim>\<open>/settings\<close> for each of the three roles,
  and for Cashier and for Stock Manager the two sets of routes differ: \<^verbatim>\<open>/settings\<close> is
  among the bottom navigation's routes and not among the sidebar's.
\<close>

theorem nav_components_disagree:
  "(''/settings'' \<in> set (Sidebar (Some r))) = (r = Super_Admin)
   \<and> (''/users'' \<in> set (Sidebar (Some r))) = (r = Super_Admin)
   \<and> ''/settings'' \<in> set (BottomNav (Some r))
   \<and> set (Sidebar (Some Cashier)) \<noteq> set (BottomNav (Some Cashier))
   \<and> set (Sidebar (Some Stock_Manager)) \<noteq> set (BottomNav (Some Stock_Manager))
   \<and> ''/settings'' \<in> set (BottomNav (Some Cashier)) - set (Sidebar (Some Cashier))
   \<and> ''/settings'' \<in> set (BottomNav (Some Stock_Manager)) - set (Sidebar (Some Stock_Manager))"
proof -
  have diff_c: "''/settings'' \<in> set (BottomNav (Some Cashier)) - set (Sidebar (Some Cashier))"
    by (simp add: Sidebar_routes BottomNav_routes)
  have diff_m:
    "''/settings'' \<in> set (BottomNav (Some Stock_Manager)) - set (Sidebar (Some Stock_Manager))"
    by (simp add: Sidebar_routes BottomNav_routes)
  have per_role:
    "(''/settings'' \<in> set (Sidebar (Some r))) = (r = Super_Admin)
     \<and> (''/users'' \<in> set (Sidebar (Some r))) = (r = Super_Admin)
     \<and> ''/settings'' \<in> set (BottomNav (Some r))"
    by (cases r) (simp_all add: Sidebar_routes BottomNav_routes)
  from diff_c have "set (Sidebar (Some Cashier)) \<noteq> set (BottomNav (Some Cashier))"
    by blast
  moreover from diff_m
  have "set (Sidebar (Some Stock_Manager)) \<noteq> set (BottomNav (Some Stock_Manager))"
    by blast
  ultimately show ?thesis
    using diff_c diff_m per_role by blast
qed

theorem nav_components_disagree_witness:
  "''/settings'' \<notin> set (Sidebar (Some Cashier))
   \<and> ''/users'' \<notin> set (Sidebar (Some Cashier))
   \<and> ''/settings'' \<in> set (BottomNav (Some Cashier))"
  using nav_components_disagree [of Cashier] by simp

lemma ProtectedRoute_pages:
  "session a = None \<Longrightarrow> pages_of (ProtectedRoute a outlet) = []"
  by (simp add: ProtectedRoute_def)

text \<open>
  Claim C10. With \<open>loading = false\<close> and \<open>session = null\<close> the protected route renders the
  redirect to \<^verbatim>\<open>/login\<close>; and without a session, whatever \<open>loading\<close> is and whichever
  route is matched, the application renders neither the layout nor any of the protected
  pages.
\<close>

theorem ProtectedRoute_requires_session:
  assumes "session a = None"
  shows "(\<not> loading a \<longrightarrow> ProtectedRoute a outlet = Navigate ''/login'' True)
    \<and> \<not> uses_layout (ProtectedRoute a outlet)
    \<and> \<not> uses_layout (AppRoutes a path)
    \<and> set (pages_of (AppRoutes a path)) \<inter> set protected_pages = {}"
proof -
  have "\<not> uses_layout (ProtectedRoute a outlet)" for outlet
    using assms by (simp add: ProtectedRoute_def)
  moreover have "set (pages_of (AppRoutes a path)) \<inter> set protected_pages = {}"
    using assms by (simp add: AppRoutes_def ProtectedRoute_pages protected_pages_def)
  moreover have "\<not> uses_layout (AppRoutes a path)"
    using assms by (simp add: AppRoutes_def ProtectedRoute_def)
  ultimately show ?thesis
    using assms by (simp add: ProtectedRoute_def)
qed

theorem ProtectedRoute_requires_session_witness:
  "ProtectedRoute \<lparr>session = (None :: unit option), loading = False\<rparr> (Page UsersPage)
     = Navigate ''/login'' True
   \<and> pages_of (AppRoutes \<lparr>session = (None :: unit option), loading = False\<rparr> ''/users'') = []"
proof -
  have no_session: "session \<lparr>session = (None :: unit option), loading = False\<rparr> = None"
    by simp
  from ProtectedRoute_requires_session [OF no_session, of "Page UsersPage" "''/users''"]
  show ?thesis
    by (simp add: AppRoutes_def ProtectedRoute_def)
qed

subsection \<open>Signup\<close>

text \<open>
  Claim C7. A signup is the insert of a user with a new id into \<^verbatim>\<open>auth.users\<close>, in a
  database where every profile belongs to a user. It succeeds and appends exactly one
  profile; that profile carries the id of the new user, it is the only profile with
  that id, and its role is Cashier whatever the email and the metadata of the new user
  are. In particular its role is never Super Admin.
\<close>

theorem signup_creates_cashier_profile:
  assumes fresh: "au_id NEW \<notin> au_id ` set (auth_users db)"
      and fk: "profile_id ` set (profiles db) \<subseteq> au_id ` set (auth_users db)"
  shows "\<exists>db'. insert_auth_users NEW db = Inr db'
    \<and> profiles db' = profiles db @
         [\<lparr>profile_id = au_id NEW, full_name = raw_user_meta_data NEW ''full_name'',
           avatar_url = raw_user_meta_data NEW ''avatar_url'', profile_role = Cashier\<rparr>]
    \<and> map profile_role (filter (\<lambda>p. profile_id p = au_id NEW) (profiles db')) = [Cashier]
    \<and> Super_Admin \<notin> set (map profile_role
          (filter (\<lambda>p. profile_id p = au_id NEW) (profiles db')))"
proof -
  from fresh fk have no_profile: "au_id NEW \<notin> profile_id ` set (profiles db)"
    by blast
  then have none: "filter (\<lambda>p. profile_id p = au_id NEW) (profiles db) = []"
    by (force simp: filter_empty_conv)
  let ?db' = "db\<lparr>auth_users := auth_users db @ [NEW],
    profiles := profiles db @
         [\<lparr>profile_id = au_id NEW, full_name = raw_user_meta_data NEW ''full_name'',
           avatar_url = raw_user_meta_data NEW ''avatar_url'', profile_role = Cashier\<rparr>]\<rparr>"
  have run: "insert_auth_users NEW db = Inr ?db'"
    using fresh no_profile by (simp add: insert_auth_users_def handle_new_user_def)
  have one: "map profile_role (filter (\<lambda>p. profile_id p = au_id NEW) (profiles ?db')) = [Cashier]"
    using none by simp
  from run one show ?thesis
    by (intro exI [of _ ?db']) simp
qed

text \<open>A signup whose metadata asks for the role Super Admin still gets a Cashier profile.\<close>

theorem signup_creates_cashier_profile_witness:
  "insert_auth_users
       \<lparr>au_id = ''u1'', au_email = Some ''a@b.c'',
        raw_user_meta_data = [''role'' \<mapsto> ''Super Admin'', ''full_name'' \<mapsto> ''Ann'']\<rparr>
       empty_database
     = Inr (empty_database
         \<lparr>auth_users :=
            [\<lparr>au_id = ''u1'', au_email = Some ''a@b.c'',
        raw_user_meta_data = [''role'' \<mapsto> ''Super Admin'', ''full_name'' \<mapsto> ''Ann'']\<rparr>],
          profiles :=
            [\<lparr>profile_id = ''u1'', full_name = Some ''Ann'', avatar_url = None,
              profile_role = Cashier\<rparr>]\<rparr>)"
proof -
  let ?NEW = "\<lparr>au_id = ''u1'', au_email = Some ''a@b.c'',
        raw_user_meta_data = [''role'' \<mapsto> ''Super Admin'', ''full_name'' \<mapsto> ''Ann'']\<rparr>"
  have fresh: "au_id ?NEW \<notin> au_id ` set (auth_users empty_database)"
    by (simp add: empty_database_def)
  have fk: "profile_id ` set (profiles empty_database) \<subseteq> au_id ` set (auth_users empty_database)"
    by (simp add: empty_database_def)
  from signup_creates_cashier_profile [OF fresh fk] show ?thesis
    by (simp add: insert_auth_users_def handle_new_user_def empty_database_def)
qed

subsection \<open>Row-level security\<close>

text \<open>The policies read the profiles only.\<close>

lemma get_my_role_profiles:
  "profiles db' = profiles db \<Longrightarrow> get_my_role c db' = get_my_role c db"
  by (cases "uid c") (simp_all add: get_my_role_def)

lemma managers_policy_profiles:
  "profiles db' = profiles db \<Longrightarrow> managers_policy c db' = managers_policy c db"
  using get_my_role_profiles [of db' db c] by (simp add: managers_policy_def)

lemma cashiers_and_above_policy_profiles:
  "profiles db' = profiles db \<Longrightarrow>
    cashiers_and_above_policy c db' = cashiers_and_above_policy c db"
  using get_my_role_profiles [of db' db c] by (simp add: cashiers_and_above_policy_def)

lemma managers_are_cashiers_and_above:
  "managers_policy c db \<Longrightarrow> cashiers_and_above_policy c db"
  by (auto simp: managers_policy_def cashiers_and_above_policy_def)

subsection \<open>Purchase order status\<close>










subsection \<open>Sale items and sale totals of the initial schema\<close>

lemma insert_initial_sale_items_appends:
  assumes "insert_initial_sale_items v db = Inr db'"
  shows "vi_total v = None
    \<and> db' = db\<lparr>initial_sale_items := initial_sale_items db @
         [\<lparr>isi_id = vi_id v, isi_sale_id = vi_sale_id v, isi_product_id = vi_product_id v,
           isi_quantity = vi_quantity v, isi_price = vi_price v,
           isi_discount = (case vi_discount v of None \<Rightarrow> 0 | Some d \<Rightarrow> d),
           isi_total = sale_items_total (vi_quantity v) (vi_price v)
                         (case vi_discount v of None \<Rightarrow> 0 | Some d \<Rightarrow> d)\<rparr>]\<rparr>"
  using assms by (simp add: insert_initial_sale_items_def Let_def split: if_splits)

lemma update_initial_sale_items_maps:
  assumes "update_initial_sale_items k u db = Inr db'"
  shows "db' = db\<lparr>initial_sale_items :=
                  map (\<lambda>i. if isi_id i = k then assign_sale_item u i else i)
                    (initial_sale_items db)\<rparr>"
  using assms by (simp add: update_initial_sale_items_def split: if_splits)

lemma assign_sale_item_total:
  "isi_total (assign_sale_item u i)
    = sale_items_total (isi_quantity (assign_sale_item u i)) (isi_price (assign_sale_item u i))
        (isi_discount (assign_sale_item u i))"
  by (simp add: assign_sale_item_def Let_def)

text \<open>
  Claim C8. In a table where every sale item's total is \<open>quantity * price - discount\<close>,
  every insert and every update that succeeds leaves that so: the total of a stored item
  is determined by its quantity, price and discount. A value written for the total
  itself, on insert or on update, is refused.
\<close>

theorem sale_item_total_generated:
  assumes inv: "\<forall>i \<in> set (initial_sale_items db).
      isi_total i = of_int (isi_quantity i) * isi_price i - isi_discount i"
  shows "(insert_initial_sale_items v db = Inr dba \<longrightarrow>
            (\<forall>i \<in> set (initial_sale_items dba).
               isi_total i = of_int (isi_quantity i) * isi_price i - isi_discount i))
    \<and> (update_initial_sale_items k u db = Inr dbb \<longrightarrow>
            (\<forall>i \<in> set (initial_sale_items dbb).
               isi_total i = of_int (isi_quantity i) * isi_price i - isi_discount i))
    \<and> (vi_total w \<noteq> None \<longrightarrow> insert_initial_sale_items w db = Inl generated_always)
    \<and> (set_total x \<noteq> None \<longrightarrow> update_initial_sale_items j x db = Inl generated_always)"
proof (intro conjI impI)
  assume "insert_initial_sale_items v db = Inr dba"
  from insert_initial_sale_items_appends [OF this] inv
  show "\<forall>i \<in> set (initial_sale_items dba).
      isi_total i = of_int (isi_quantity i) * isi_price i - isi_discount i"
    by (auto simp: sale_items_total_def)
next
  assume "update_initial_sale_items k u db = Inr dbb"
  from update_initial_sale_items_maps [OF this] inv assign_sale_item_total
  show "\<forall>i \<in> set (initial_sale_items dbb).
      isi_total i = of_int (isi_quantity i) * isi_price i - isi_discount i"
    by (auto simp: sale_items_total_def)
next
  assume "vi_total w \<noteq> None"
  then show "insert_initial_sale_items w db = Inl generated_always"
    by (simp add: insert_initial_sale_items_def)
next
  assume "set_total x \<noteq> None"
  then show "update_initial_sale_items j x db = Inl generated_always"
    by (simp add: update_initial_sale_items_def)
qed

theorem sale_item_total_generated_witness:
  "insert_initial_sale_items
     \<lparr>vi_id = ''i2'', vi_sale_id = ''s1'', vi_product_id = ''p2'', vi_quantity = 2,
      vi_price = 4, vi_discount = None, vi_total = None\<rparr>
     (empty_database\<lparr>initial_sales :=
         [\<lparr>is_id = ''s1'', is_user_id = ''u1'', is_customer_name = None,
           is_customer_contact = None, is_subtotal = 7, is_discount = 0, is_tax = 0,
           is_total = 7, is_payment_method = ''cash'', is_receipt_number = ''R1''\<rparr>],
       initial_sale_items :=
         [\<lparr>isi_id = ''i1'', isi_sale_id = ''s1'', isi_product_id = ''p1'', isi_quantity = 3,
           isi_price = 5 / 2, isi_discount = 1 / 2, isi_total = 7\<rparr>]\<rparr>)
   = Inr
     (empty_database\<lparr>initial_sales :=
         [\<lparr>is_id = ''s1'', is_user_id = ''u1'', is_customer_name = None,
           is_customer_contact = None, is_subtotal = 7, is_discount = 0, is_tax = 0,
           is_total = 7, is_payment_method = ''cash'', is_receipt_number = ''R1''\<rparr>],
       initial_sale_items :=
         [\<lparr>isi_id = ''i1'', isi_sale_id = ''s1'', isi_product_id = ''p1'', isi_quantity = 3,
           isi_price = 5 / 2, isi_discount = 1 / 2, isi_total = 7\<rparr>,
          \<lparr>isi_id = ''i2'', isi_sale_id = ''s1'', isi_product_id = ''p2'', isi_quantity = 2,
           isi_price = 4, isi_discount = 0, isi_total = 8\<rparr>]\<rparr>)
   \<and> update_initial_sale_items ''i1''
     \<lparr>set_quantity = Some 4, set_price = None, set_discount = None, set_total = None\<rparr>
     (empty_database\<lparr>initial_sales :=
         [\<lparr>is_id = ''s1'', is_user_id = ''u1'', is_customer_name = None,
           is_customer_contact = None, is_subtotal = 7, is_discount = 0, is_tax = 0,
           is_total = 7, is_payment_method = ''cash'', is_receipt_number = ''R1''\<rparr>],
       initial_sale_items :=
         [\<lparr>isi_id = ''i1'', isi_sale_id = ''s1'', isi_product_id = ''p1'', isi_quantity = 3,
           isi_price = 5 / 2, isi_discount = 1 / 2, isi_total = 7\<rparr>]\<rparr>)
   = Inr
     (empty_database\<lparr>initial_sales :=
         [\<lparr>is_id = ''s1'', is_user_id = ''u1'', is_customer_name = None,
           is_customer_contact = None, is_subtotal = 7, is_discount = 0, is_tax = 0,
           is_total = 7, is_payment_method = ''cash'', is_receipt_number = ''R1''\<rparr>],
       initial_sale_items :=
         [\<lparr>isi_id = ''i1'', isi_sale_id = ''s1'', isi_product_id = ''p1'', isi_quantity = 4,
           isi_price = 5 / 2, isi_discount = 1 / 2, isi_total = 19 / 2\<rparr>]\<rparr>)
   \<and> insert_initial_sale_items
     \<lparr>vi_id = ''i2'', vi_sale_id = ''s1'', vi_product_id = ''p2'', vi_quantity = 2,
      vi_price = 4, vi_discount = None, vi_total = Some 9\<rparr>
     (empty_database\<lparr>initial_sales :=
         [\<lparr>is_id = ''s1'', is_user_id = ''u1'', is_customer_name = None,
           is_customer_contact = None, is_subtotal = 7, is_discount = 0, is_tax = 0,
           is_total = 7, is_payment_method = ''cash'', is_receipt_number = ''R1''\<rparr>],
       initial_sale_items :=
         [\<lparr>isi_id = ''i1'', isi_sale_id = ''s1'', isi_product_id = ''p1'', isi_quantity = 3,
           isi_price = 5 / 2, isi_discount = 1 / 2, isi_total = 7\<rparr>]\<rparr>)
   = Inl generated_always
   \<and> update_initial_sale_items ''i1''
     \<lparr>set_quantity = None, set_price = None, set_discount = None, set_total = Some 1\<rparr>
     (empty_database\<lparr>initial_sales :=
         [\<lparr>is_id = ''s1'', is_user_id = ''u1'', is_customer_name = None,
           is_customer_contact = None, is_subtotal = 7, is_discount = 0, is_tax = 0,
           is_total = 7, is_payment_method = ''cash'', is_receipt_number = ''R1''\<rparr>],
       initial_sale_items :=
         [\<lparr>isi_id = ''i1'', isi_sale_id = ''s1'', isi_product_id = ''p1'', isi_quantity = 3,
           isi_price = 5 / 2, isi_discount = 1 / 2, isi_total = 7\<rparr>]\<rparr>)
   = Inl generated_always"
proof -
  have inv: "\<forall>i \<in> set (initial_sale_items
      (empty_database\<lparr>initial_sales :=
          [\<lparr>is_id = ''s1'', is_user_id = ''u1'', is_customer_name = None,
            is_customer_contact = None, is_subtotal = 7, is_discount = 0, is_tax = 0,
            is_total = 7, is_payment_method = ''cash'', is_receipt_number = ''R1''\<rparr>],
        initial_sale_items :=
          [\<lparr>isi_id = ''i1'', isi_sale_id = ''s1'', isi_product_id = ''p1'', isi_quantity = 3,
            isi_price = 5 / 2, isi_discount = 1 / 2, isi_total = 7\<rparr>]\<rparr>)).
      isi_total i = of_int (isi_quantity i) * isi_price i - isi_discount i"
    by simp
  from sale_item_total_generated [OF inv,
      where v = "\<lparr>vi_id = ''i2'', vi_sale_id = ''s1'', vi_product_id = ''p2'', vi_quantity = 2,
                   vi_price = 4, vi_discount = None, vi_total = None\<rparr>"
        and dba = "empty_database\<lparr>initial_sales :=
                       [\<lparr>is_id = ''s1'', is_user_id = ''u1'', is_customer_name = None,
                         is_customer_contact = None, is_subtotal = 7, is_discount = 0, is_tax = 0,
                         is_total = 7, is_payment_method = ''cash'', is_receipt_number = ''R1''\<rparr>],
                     initial_sale_items :=
                       [\<lparr>isi_id = ''i1'', isi_sale_id = ''s1'', isi_product_id = ''p1'', isi_quantity = 3,
                         isi_price = 5 / 2, isi_discount = 1 / 2, isi_total = 7\<rparr>,
                        \<lparr>isi_id = ''i2'', isi_sale_id = ''s1'', isi_product_id = ''p2'', isi_quantity = 2,
                         isi_price = 4, isi_discount = 0, isi_total = 8\<rparr>]\<rparr>"
        and k = "''i1''"
        and u = "\<lparr>set_quantity = Some 4, set_price = None, set_discount = None, set_total = None\<rparr>"
        and dbb = "empty_database\<lparr>initial_sales :=
                       [\<lparr>is_id = ''s1'', is_user_id = ''u1'', is_customer_name = None,
                         is_customer_contact = None, is_subtotal = 7, is_discount = 0, is_tax = 0,
                         is_total = 7, is_payment_method = ''cash'', is_receipt_number = ''R1''\<rparr>],
                     initial_sale_items :=
                       [\<lparr>isi_id = ''i1'', isi_sale_id = ''s1'', isi_product_id = ''p1'', isi_quantity = 4,
                         isi_price = 5 / 2, isi_discount = 1 / 2, isi_total = 19 / 2\<rparr>]\<rparr>"
        and w = "\<lparr>vi_id = ''i2'', vi_sale_id = ''s1'', vi_product_id = ''p2'', vi_quantity = 2,
                   vi_price = 4, vi_discount = None, vi_total = Some 9\<rparr>"
        and j = "''i1''"
        and x = "\<lparr>set_quantity = None, set_price = None, set_discount = None, set_total = Some 1\<rparr>"]
  show ?thesis
    by (simp add: insert_initial_sale_items_def update_initial_sale_items_def assign_sale_item_def
        initial_sale_items_check_def sale_items_total_def int4_ok_def empty_database_def)
qed

lemma insert_initial_sales_appends:
  assumes "insert_initial_sales v db = Inr db'"
  shows "db' = db\<lparr>initial_sales := initial_sales db @
          [\<lparr>is_id = vs_id v, is_user_id = vs_user_id v,
            is_customer_name = vs_customer_name v,
            is_customer_contact = vs_customer_contact v,
            is_subtotal = vs_subtotal v,
            is_discount = (case vs_discount v of None \<Rightarrow> 0 | Some d \<Rightarrow> d),
            is_tax = (case vs_tax v of None \<Rightarrow> 0 | Some t \<Rightarrow> t),
            is_total = vs_total v,
            is_payment_method = vs_payment_method v,
            is_receipt_number = vs_receipt_number v\<rparr>]\<rparr>
    \<and> initial_sales_check
          \<lparr>is_id = vs_id v, is_user_id = vs_user_id v,
            is_customer_name = vs_customer_name v,
            is_customer_contact = vs_customer_contact v,
            is_subtotal = vs_subtotal v,
            is_discount = (case vs_discount v of None \<Rightarrow> 0 | Some d \<Rightarrow> d),
            is_tax = (case vs_tax v of None \<Rightarrow> 0 | Some t \<Rightarrow> t),
            is_total = vs_total v,
            is_payment_method = vs_payment_method v,
            is_receipt_number = vs_receipt_number v\<rparr>"
  using assms by (simp add: insert_initial_sales_def Let_def split: if_splits)

text \<open>
  Claim C4, as the schema has it. A sale row stores the subtotal, discount, tax and
  total that the insert gives (discount and tax default to 0), each of them at least 0.
  Whether an insert into \<^verbatim>\<open>sales\<close> is accepted, and what it stores, does not depend on
  the rows of \<^verbatim>\<open>sale_items\<close>. An insert or update of a sale item leaves the sale rows
  as they are, and each inserted item's own total is \<open>quantity * price - discount\<close>, in
  exact arithmetic. So the total of a sale is the value supplied, whatever its items are.
\<close>

theorem sale_total_stored_as_given:
  "(insert_initial_sales v db = Inr dba \<longrightarrow>
      (\<exists>row. initial_sales dba = initial_sales db @ [row]
         \<and> is_total row = vs_total v \<and> is_subtotal row = vs_subtotal v
         \<and> is_discount row = (case vs_discount v of None \<Rightarrow> 0 | Some d \<Rightarrow> d)
         \<and> is_tax row = (case vs_tax v of None \<Rightarrow> 0 | Some t \<Rightarrow> t)
         \<and> 0 \<le> is_total row \<and> 0 \<le> is_subtotal row \<and> 0 \<le> is_discount row
         \<and> 0 \<le> is_tax row)
      \<and> initial_sale_items dba = initial_sale_items db)
   \<and> insert_initial_sales v (db\<lparr>initial_sale_items := items\<rparr>)
       = (case insert_initial_sales v db of
            Inl e \<Rightarrow> Inl e
          | Inr d \<Rightarrow> Inr (d\<lparr>initial_sale_items := items\<rparr>))
   \<and> (insert_initial_sale_items w db = Inr dbb \<longrightarrow>
      initial_sales dbb = initial_sales db
      \<and> (\<exists>item. initial_sale_items dbb = initial_sale_items db @ [item]
           \<and> isi_total item = of_int (isi_quantity item) * isi_price item - isi_discount item))
   \<and> (update_initial_sale_items k u db = Inr dbc \<longrightarrow> initial_sales dbc = initial_sales db)"
proof (intro conjI impI)
  assume "insert_initial_sales v db = Inr dba"
  note app = insert_initial_sales_appends [OF this]
  let ?row = "\<lparr>is_id = vs_id v, is_user_id = vs_user_id v,
            is_customer_name = vs_customer_name v,
            is_customer_contact = vs_customer_contact v,
            is_subtotal = vs_subtotal v,
            is_discount = (case vs_discount v of None \<Rightarrow> 0 | Some d \<Rightarrow> d),
            is_tax = (case vs_tax v of None \<Rightarrow> 0 | Some t \<Rightarrow> t),
            is_total = vs_total v,
            is_payment_method = vs_payment_method v,
            is_receipt_number = vs_receipt_number v\<rparr>"
  from app have "0 \<le> is_total ?row \<and> 0 \<le> is_subtotal ?row \<and> 0 \<le> is_discount ?row
      \<and> 0 \<le> is_tax ?row"
    by (simp add: initial_sales_check_def)
  with app show "\<exists>row. initial_sales dba = initial_sales db @ [row]
         \<and> is_total row = vs_total v \<and> is_subtotal row = vs_subtotal v
         \<and> is_discount row = (case vs_discount v of None \<Rightarrow> 0 | Some d \<Rightarrow> d)
         \<and> is_tax row = (case vs_tax v of None \<Rightarrow> 0 | Some t \<Rightarrow> t)
         \<and> 0 \<le> is_total row \<and> 0 \<le> is_subtotal row \<and> 0 \<le> is_discount row
         \<and> 0 \<le> is_tax row"
    by (intro exI [of _ ?row]) simp
  from app show "initial_sale_items dba = initial_sale_items db"
    by simp
next
  show "insert_initial_sales v (db\<lparr>initial_sale_items := items\<rparr>)
       = (case insert_initial_sales v db of
            Inl e \<Rightarrow> Inl e
          | Inr d \<Rightarrow> Inr (d\<lparr>initial_sale_items := items\<rparr>))"
    by (simp add: insert_initial_sales_def Let_def)
next
  assume "insert_initial_sale_items w db = Inr dbb"
  note app = insert_initial_sale_items_appends [OF this]
  from app show "initial_sales dbb = initial_sales db"
    by simp
  from app show "\<exists>item. initial_sale_items dbb = initial_sale_items db @ [item]
           \<and> isi_total item = of_int (isi_quantity item) * isi_price item - isi_discount item"
    by (simp add: sale_items_total_def)
next
  assume "update_initial_sale_items k u db = Inr dbc"
  from update_initial_sale_items_maps [OF this] show "initial_sales dbc = initial_sales db"
    by simp
qed

theorem sale_total_stored_as_given_witness:
  "insert_initial_sales
     \<lparr>vs_id = ''s2'', vs_user_id = ''u1'', vs_customer_name = None,
      vs_customer_contact = None, vs_subtotal = 10, vs_discount = None, vs_tax = None,
      vs_total = 99, vs_payment_method = ''card'', vs_receipt_number = ''R2''\<rparr>
     (empty_database\<lparr>initial_sales :=
         [\<lparr>is_id = ''s1'', is_user_id = ''u1'', is_customer_name = None,
           is_customer_contact = None, is_subtotal = 7, is_discount = 0, is_tax = 0,
           is_total = 7, is_payment_method = ''cash'', is_receipt_number = ''R1''\<rparr>],
       initial_sale_items :=
         [\<lparr>isi_id = ''i1'', isi_sale_id = ''s1'', isi_product_id = ''p1'', isi_quantity = 3,
           isi_price = 5 / 2, isi_discount = 1 / 2, isi_total = 7\<rparr>]\<rparr>)
   = Inr
     (empty_database\<lparr>initial_sales :=
         [\<lparr>is_id = ''s1'', is_user_id = ''u1'', is_customer_name = None,
           is_customer_contact = None, is_subtotal = 7, is_discount = 0, is_tax = 0,
           is_total = 7, is_payment_method = ''cash'', is_receipt_number = ''R1''\<rparr>,
          \<lparr>is_id = ''s2'', is_user_id = ''u1'', is_customer_name = None,
           is_customer_contact = None, is_subtotal = 10, is_discount = 0, is_tax = 0,
           is_total = 99, is_payment_method = ''card'', is_receipt_number = ''R2''\<rparr>],
       initial_sale_items :=
         [\<lparr>isi_id = ''i1'', isi_sale_id = ''s1'', isi_product_id = ''p1'', isi_quantity = 3,
           isi_price = 5 / 2, isi_discount = 1 / 2, isi_total = 7\<rparr>]\<rparr>)
   \<and> insert_initial_sale_items
     \<lparr>vi_id = ''i2'', vi_sale_id = ''s1'', vi_product_id = ''p2'', vi_quantity = 2,
      vi_price = 4, vi_discount = None, vi_total = None\<rparr>
     (empty_database\<lparr>initial_sales :=
         [\<lparr>is_id = ''s1'', is_user_id = ''u1'', is_customer_name = None,
           is_customer_contact = None, is_subtotal = 7, is_discount = 0, is_tax = 0,
           is_total = 7, is_payment_method = ''cash'', is_receipt_number = ''R1''\<rparr>],
       initial_sale_items :=
         [\<lparr>isi_id = ''i1'', isi_sale_id = ''s1'', isi_product_id = ''p1'', isi_quantity = 3,
           isi_price = 5 / 2, isi_discount = 1 / 2, isi_total = 7\<rparr>]\<rparr>)
   = Inr
     (empty_database\<lparr>initial_sales :=
         [\<lparr>is_id = ''s1'', is_user_id = ''u1'', is_customer_name = None,
           is_customer_contact = None, is_subtotal = 7, is_discount = 0, is_tax = 0,
           is_total = 7, is_payment_method = ''cash'', is_receipt_number = ''R1''\<rparr>],
       initial_sale_items :=
         [\<lparr>isi_id = ''i1'', isi_sale_id = ''s1'', isi_product_id = ''p1'', isi_quantity = 3,
           isi_price = 5 / 2, isi_discount = 1 / 2, isi_total = 7\<rparr>,
          \<lparr>isi_id = ''i2'', isi_sale_id = ''s1'', isi_product_id = ''p2'', isi_quantity = 2,
           isi_price = 4, isi_discount = 0, isi_total = 8\<rparr>]\<rparr>)
   \<and> update_initial_sale_items ''i1''
     \<lparr>set_quantity = Some 4, set_price = None, set_discount = None, set_total = None\<rparr>
     (empty_database\<lparr>initial_sales :=
         [\<lparr>is_id = ''s1'', is_user_id = ''u1'', is_customer_name = None,
           is_customer_contact = None, is_subtotal = 7, is_discount = 0, is_tax = 0,
           is_total = 7, is_payment_method = ''cash'', is_receipt_number = ''R1''\<rparr>],
       initial_sale_items :=
         [\<lparr>isi_id = ''i1'', isi_sale_id = ''s1'', isi_product_id = ''p1'', isi_quantity = 3,
           isi_price = 5 / 2, isi_discount = 1 / 2, isi_total = 7\<rparr>]\<rparr>)
   = Inr
     (empty_database\<lparr>initial_sales :=
         [\<lparr>is_id = ''s1'', is_user_id = ''u1'', is_customer_name = None,
           is_customer_contact = None, is_subtotal = 7, is_discount = 0, is_tax = 0,
           is_total = 7, is_payment_method = ''cash'', is_receipt_number = ''R1''\<rparr>],
       initial_sale_items :=
         [\<lparr>isi_id = ''i1'', isi_sale_id = ''s1'', isi_product_id = ''p1'', isi_quantity = 4,
           isi_price = 5 / 2, isi_discount = 1 / 2, isi_total = 19 / 2\<rparr>]\<rparr>)"
  using sale_total_stored_as_given
    [where db = "empty_database\<lparr>initial_sales :=
                    [\<lparr>is_id = ''s1'', is_user_id = ''u1'', is_customer_name = None,
                      is_customer_contact = None, is_subtotal = 7, is_discount = 0, is_tax = 0,
                      is_total = 7, is_payment_method = ''cash'', is_receipt_number = ''R1''\<rparr>],
                  initial_sale_items :=
                    [\<lparr>isi_id = ''i1'', isi_sale_id = ''s1'', isi_product_id = ''p1'', isi_quantity = 3,
                      isi_price = 5 / 2, isi_discount = 1 / 2, isi_total = 7\<rparr>]\<rparr>"
       and v = "\<lparr>vs_id = ''s2'', vs_user_id = ''u1'', vs_customer_name = None,
                 vs_customer_contact = None, vs_subtotal = 10, vs_discount = None, vs_tax = None,
                 vs_total = 99, vs_payment_method = ''card'', vs_receipt_number = ''R2''\<rparr>"
       and dba = "empty_database\<lparr>initial_sales :=
                     [\<lparr>is_id = ''s1'', is_user_id = ''u1'', is_customer_name = None,
                       is_customer_contact = None, is_subtotal = 7, is_discount = 0, is_tax = 0,
                       is_total = 7, is_payment_method = ''cash'', is_receipt_number = ''R1''\<rparr>,
                      \<lparr>is_id = ''s2'', is_user_id = ''u1'', is_customer_name = None,
                       is_customer_contact = None, is_subtotal = 10, is_discount = 0, is_tax = 0,
                       is_total = 99, is_payment_method = ''card'', is_receipt_number = ''R2''\<rparr>],
                   initial_sale_items :=
                     [\<lparr>isi_id = ''i1'', isi_sale_id = ''s1'', isi_product_id = ''p1'', isi_quantity = 3,
                       isi_price = 5 / 2, isi_discount = 1 / 2, isi_total = 7\<rparr>]\<rparr>"
       and w = "\<lparr>vi_id = ''i2'', vi_sale_id = ''s1'', vi_product_id = ''p2'', vi_quantity = 2,
                 vi_price = 4, vi_discount = None, vi_total = None\<rparr>"
       and dbb = "empty_database\<lparr>initial_sales :=
                     [\<lparr>is_id = ''s1'', is_user_id = ''u1'', is_customer_name = None,
                       is_customer_contact = None, is_subtotal = 7, is_discount = 0, is_tax = 0,
                       is_total = 7, is_payment_method = ''cash'', is_receipt_number = ''R1''\<rparr>],
                   initial_sale_items :=
                     [\<lparr>isi_id = ''i1'', isi_sale_id = ''s1'', isi_product_id = ''p1'', isi_quantity = 3,
                       isi_price = 5 / 2, isi_discount = 1 / 2, isi_total = 7\<rparr>,
                      \<lparr>isi_id = ''i2'', isi_sale_id = ''s1'', isi_product_id = ''p2'', isi_quantity = 2,
                       isi_price = 4, isi_discount = 0, isi_total = 8\<rparr>]\<rparr>"
       and k = "''i1''"
       and u = "\<lparr>set_quantity = Some 4, set_price = None, set_discount = None, set_total = None\<rparr>"
       and dbc = "empty_database\<lparr>initial_sales :=
                     [\<lparr>is_id = ''s1'', is_user_id = ''u1'', is_customer_name = None,
                       is_customer_contact = None, is_subtotal = 7, is_discount = 0, is_tax = 0,
                       is_total = 7, is_payment_method = ''cash'', is_receipt_number = ''R1''\<rparr>],
                   initial_sale_items :=
                     [\<lparr>isi_id = ''i1'', isi_sale_id = ''s1'', isi_product_id = ''p1'', isi_quantity = 4,
                       isi_price = 5 / 2, isi_discount = 1 / 2, isi_total = 19 / 2\<rparr>]\<rparr>"]
  by (simp add: insert_initial_sales_def initial_sales_check_def
        insert_initial_sale_items_def update_initial_sale_items_def assign_sale_item_def
        initial_sale_items_check_def sale_items_total_def int4_ok_def empty_database_def)

text \<open>
  A sale is stored with total 99, tax 0 and discount 0, and then its only item with
  quantity 1, price 10 and no discount. Both inserts succeed, and the stored total is not
  the sum of the item totals plus tax minus discount.
\<close>

theorem sale_total_differs_from_items:
  "insert_initial_sales
      \<lparr>vs_id = ''s1'', vs_user_id = ''u1'', vs_customer_name = None,
       vs_customer_contact = None, vs_subtotal = 10, vs_discount = None, vs_tax = None,
       vs_total = 99, vs_payment_method = ''card'', vs_receipt_number = ''R1''\<rparr>
      empty_database
    = Inr (empty_database\<lparr>initial_sales :=
         [\<lparr>is_id = ''s1'', is_user_id = ''u1'', is_customer_name = None,
           is_customer_contact = None, is_subtotal = 10, is_discount = 0, is_tax = 0,
           is_total = 99, is_payment_method = ''card'', is_receipt_number = ''R1''\<rparr>]\<rparr>)
   \<and> insert_initial_sale_items
      \<lparr>vi_id = ''i1'', vi_sale_id = ''s1'', vi_product_id = ''p1'', vi_quantity = 1,
       vi_price = 10, vi_discount = None, vi_total = None\<rparr>
      (empty_database\<lparr>initial_sales :=
         [\<lparr>is_id = ''s1'', is_user_id = ''u1'', is_customer_name = None,
           is_customer_contact = None, is_subtotal = 10, is_discount = 0, is_tax = 0,
           is_total = 99, is_payment_method = ''card'', is_receipt_number = ''R1''\<rparr>]\<rparr>)
    = Inr (empty_database\<lparr>initial_sales :=
         [\<lparr>is_id = ''s1'', is_user_id = ''u1'', is_customer_name = None,
           is_customer_contact = None, is_subtotal = 10, is_discount = 0, is_tax = 0,
           is_total = 99, is_payment_method = ''card'', is_receipt_number = ''R1''\<rparr>],
         initial_sale_items :=
         [\<lparr>isi_id = ''i1'', isi_sale_id = ''s1'', isi_product_id = ''p1'', isi_quantity = 1,
           isi_price = 10, isi_discount = 0, isi_total = 10\<rparr>]\<rparr>)
   \<and> items_total (empty_database\<lparr>initial_sales :=
         [\<lparr>is_id = ''s1'', is_user_id = ''u1'', is_customer_name = None,
           is_customer_contact = None, is_subtotal = 10, is_discount = 0, is_tax = 0,
           is_total = 99, is_payment_method = ''card'', is_receipt_number = ''R1''\<rparr>],
         initial_sale_items :=
         [\<lparr>isi_id = ''i1'', isi_sale_id = ''s1'', isi_product_id = ''p1'', isi_quantity = 1,
           isi_price = 10, isi_discount = 0, isi_total = 10\<rparr>]\<rparr>) ''s1'' + 0 - 0 \<noteq> 99"
  by (simp add: insert_initial_sales_def initial_sales_check_def empty_database_def
      insert_initial_sale_items_def initial_sale_items_check_def sale_items_total_def
      int4_ok_def items_total_def)

subsection \<open>Sales and stock\<close>

text \<open>
  What the operations do when they succeed, as equations on the state.
\<close>

lemma floor_rat_numeral:
  "\<lfloor>(numeral a :: rat) / numeral b\<rfloor> = numeral a div numeral b"
  using floor_divide_of_int_eq [of "numeral a" "numeral b", where ?'a = rat] by simp

lemma set_quantity_minus_Inr:
  assumes "set_quantity_minus k n bs = Inr bs'"
  shows "bs' = map (\<lambda>b. if pb_id b = k then b\<lparr>pb_quantity := pb_quantity b - n\<rparr> else b) bs"
  using assms
proof (induction bs arbitrary: bs')
  case Nil
  then show ?case by simp
next
  case (Cons b bs)
  then show ?case
    by (auto simp: int4_minus_def split: if_splits sum.splits)
qed

lemma set_quantity_minus_ok:
  assumes "\<forall>b \<in> set bs. pb_id b = k \<longrightarrow> int4_ok (pb_quantity b - n)"
  shows "set_quantity_minus k n bs
    = Inr (map (\<lambda>b. if pb_id b = k then b\<lparr>pb_quantity := pb_quantity b - n\<rparr> else b) bs)"
  using assms by (induction bs) (auto simp: int4_minus_def)

lemma managers_policy_after_insert:
  "managers_policy c (db\<lparr>sale_items := xs, sale_items_id_seq := n\<rparr>) = managers_policy c db"
  by (rule managers_policy_profiles) simp

lemma update_stock_from_sale_Inr:
  assumes "update_stock_from_sale c NEW db = Inr db'"
  shows "db' = db\<lparr>product_batches :=
      (if managers_policy c db
       then map (\<lambda>b. if pb_id b = si_product_batch_id NEW
                      then b\<lparr>pb_quantity := pb_quantity b - si_quantity NEW\<rparr> else b)
              (product_batches db)
       else product_batches db)\<rparr>"
proof (cases "managers_policy c db")
  case True
  with assms obtain bs where
    bs: "set_quantity_minus (si_product_batch_id NEW) (si_quantity NEW) (product_batches db)
      = Inr bs" and db': "db' = db\<lparr>product_batches := bs\<rparr>"
    by (auto simp: update_stock_from_sale_def split: sum.splits)
  from set_quantity_minus_Inr [OF bs] db' True show ?thesis
    by simp
next
  case False
  with assms show ?thesis
    by (simp add: update_stock_from_sale_def)
qed

lemma insert_sale_items_Inr:
  assumes "insert_sale_items c v db = Inr db'"
  shows "\<exists>price. numeric_10_2 (v_unit_price v) = Inr price \<and> db' = db
    \<lparr>sale_items := sale_items db @
        [\<lparr>si_id = sale_items_id_seq db, si_sale_id = v_sale_id v,
          si_product_batch_id = v_product_batch_id v, si_quantity = v_quantity v,
          si_unit_price = price\<rparr>],
     sale_items_id_seq := sale_items_id_seq db + 1,
     product_batches :=
       (if managers_policy c db
        then map (\<lambda>b. if pb_id b = v_product_batch_id v
                       then b\<lparr>pb_quantity := pb_quantity b - v_quantity v\<rparr> else b)
               (product_batches db)
        else product_batches db)\<rparr>"
proof -
  from assms obtain price where price: "numeric_10_2 (v_unit_price v) = Inr price"
    and run: "update_stock_from_sale c
        \<lparr>si_id = sale_items_id_seq db, si_sale_id = v_sale_id v,
          si_product_batch_id = v_product_batch_id v, si_quantity = v_quantity v,
          si_unit_price = price\<rparr>
        (db\<lparr>sale_items := sale_items db @
            [\<lparr>si_id = sale_items_id_seq db, si_sale_id = v_sale_id v,
              si_product_batch_id = v_product_batch_id v, si_quantity = v_quantity v,
              si_unit_price = price\<rparr>],
          sale_items_id_seq := sale_items_id_seq db + 1\<rparr>) = Inr db'"
    by (auto simp: insert_sale_items_def Let_def split: if_splits sum.splits)
  from update_stock_from_sale_Inr [OF run] price show ?thesis
    by (simp add: managers_policy_after_insert)
qed

lemma insert_sale_items_all_movements:
  "insert_sale_items_all c vs db = Inr db' \<Longrightarrow> inventory_movements db' = inventory_movements db"
proof (induction vs arbitrary: db)
  case Nil
  then show ?case by simp
next
  case (Cons v vs)
  from Cons.prems obtain db1 where step: "insert_sale_items c v db = Inr db1"
    and rest: "insert_sale_items_all c vs db1 = Inr db'"
    by (auto split: sum.splits)
  from insert_sale_items_Inr [OF step] have "inventory_movements db1 = inventory_movements db"
    by auto
  with Cons.IH [OF rest] show ?case by simp
qed

lemma update_stock_from_purchase_Inr:
  assumes "update_stock_from_purchase c p db = Inr db'"
  shows "\<exists>item cost price.
      find (\<lambda>i. poi_id i = p) (purchase_order_items db) = Some item
    \<and> numeric_10_2 (poi_unit_cost item) = Inr cost
    \<and> numeric_10_2 (poi_unit_cost item * 1.25) = Inr price
    \<and> db' = db
      \<lparr>product_batches := product_batches db @
         [\<lparr>pb_id = product_batches_id_seq db, pb_product_id = poi_product_id item,
           pb_batch_number = poi_batch_number item, pb_expiry_date = poi_expiry_date item,
           pb_cost_price = cost, pb_selling_price = price, pb_quantity = poi_quantity item,
           pb_supplier_id = None\<rparr>],
       product_batches_id_seq := product_batches_id_seq db + 1\<rparr>"
  using assms
  by (auto simp: update_stock_from_purchase_def Let_def split: option.splits sum.splits if_splits)

lemma update_batches_quantity_Inr:
  assumes "update_batches_quantity k q db = Inr db'"
  shows "db' = db\<lparr>batches := map (\<lambda>b. if b_id b = k then b\<lparr>b_quantity := q\<rparr> else b) (batches db)\<rparr>"
  using assms by (simp add: update_batches_quantity_def split: if_splits)

lemma requested_Cons:
  "requested k (v # vs) = (if v_product_batch_id v = k then v_quantity v else 0) + requested k vs"
  by (simp add: requested_def)

lemma requested_nonneg:
  "\<forall>v \<in> set vs. 0 \<le> v_quantity v \<Longrightarrow> 0 \<le> requested k vs"
  by (induction vs) (auto simp: requested_Cons requested_def)

lemma insert_sale_items_ok:
  assumes admitted: "managers_policy c db"
      and qty: "int4_ok (v_quantity v)"
      and price: "numeric_10_2 (v_unit_price v) = Inr (v_unit_price v)"
      and seq: "\<forall>i \<in> set (sale_items db). si_id i < sale_items_id_seq db"
      and fk_sale: "v_sale_id v \<in> s_id ` set (sales db)"
      and fk_batch: "v_product_batch_id v \<in> pb_id ` set (product_batches db)"
      and range: "\<forall>b \<in> set (product_batches db).
          pb_id b = v_product_batch_id v \<longrightarrow> int4_ok (pb_quantity b - v_quantity v)"
  shows "insert_sale_items c v db = Inr (db
    \<lparr>sale_items := sale_items db @
        [\<lparr>si_id = sale_items_id_seq db, si_sale_id = v_sale_id v,
          si_product_batch_id = v_product_batch_id v, si_quantity = v_quantity v,
          si_unit_price = v_unit_price v\<rparr>],
     sale_items_id_seq := sale_items_id_seq db + 1,
     product_batches :=
       map (\<lambda>b. if pb_id b = v_product_batch_id v
                 then b\<lparr>pb_quantity := pb_quantity b - v_quantity v\<rparr> else b)
         (product_batches db)\<rparr>)"
proof -
  from seq have "sale_items_id_seq db \<notin> si_id ` set (sale_items db)"
    by auto
  with admitted managers_are_cashiers_and_above [OF admitted] qty price fk_sale fk_batch
    set_quantity_minus_ok [OF range]
  show ?thesis
    by (simp add: insert_sale_items_def update_stock_from_sale_def
        managers_policy_after_insert)
qed

lemma pb_id_map_quantity:
  "pb_id ` set (map (\<lambda>b. if P b then b\<lparr>pb_quantity := g b\<rparr> else b) bs) = pb_id ` set bs"
proof -
  have "map pb_id (map (\<lambda>b. if P b then b\<lparr>pb_quantity := g b\<rparr> else b) bs) = map pb_id bs"
    by (induction bs) auto
  then have "set (map pb_id (map (\<lambda>b. if P b then b\<lparr>pb_quantity := g b\<rparr> else b) bs))
      = set (map pb_id bs)"
    by simp
  then show ?thesis
    by (simp only: set_map)
qed

lemma values_of_new:
  "values_of \<lparr>si_id = k, si_sale_id = v_sale_id v,
          si_product_batch_id = v_product_batch_id v, si_quantity = v_quantity v,
          si_unit_price = v_unit_price v\<rparr> = v"
  by (simp add: values_of_def)

lemma sold_range:
  assumes "\<forall>b \<in> set bs. int4_ok (pb_quantity b)"
      and "\<forall>b \<in> set bs. pb_id b = k \<longrightarrow> int4_ok (pb_quantity b - n)"
  shows "\<forall>b \<in> set (map (\<lambda>b. if pb_id b = k then b\<lparr>pb_quantity := pb_quantity b - n\<rparr> else b) bs).
           int4_ok (pb_quantity b)"
proof
  fix b
  assume "b \<in> set (map (\<lambda>b. if pb_id b = k then b\<lparr>pb_quantity := pb_quantity b - n\<rparr> else b) bs)"
  then obtain a where a: "a \<in> set bs"
    and b: "b = (if pb_id a = k then a\<lparr>pb_quantity := pb_quantity a - n\<rparr> else a)"
    unfolding set_map by blast
  from assms a show "int4_ok (pb_quantity b)"
    unfolding b by (cases "pb_id a = k") simp_all
qed

lemma sold_sufficient:
  assumes "\<forall>b \<in> set bs. pb_id b \<in> v_product_batch_id ` set (v # vs) \<longrightarrow>
      requested (pb_id b) (v # vs) \<le> pb_quantity b"
  shows "\<forall>b \<in> set (map (\<lambda>b. if pb_id b = v_product_batch_id v
                              then b\<lparr>pb_quantity := pb_quantity b - v_quantity v\<rparr> else b) bs).
           pb_id b \<in> v_product_batch_id ` set vs \<longrightarrow> requested (pb_id b) vs \<le> pb_quantity b"
proof (intro ballI impI)
  fix b
  assume "b \<in> set (map (\<lambda>b. if pb_id b = v_product_batch_id v
                              then b\<lparr>pb_quantity := pb_quantity b - v_quantity v\<rparr> else b) bs)"
    and ref: "pb_id b \<in> v_product_batch_id ` set vs"
  then obtain a where a: "a \<in> set bs"
    and b: "b = (if pb_id a = v_product_batch_id v
                 then a\<lparr>pb_quantity := pb_quantity a - v_quantity v\<rparr> else a)"
    unfolding set_map by blast
  from b have id: "pb_id b = pb_id a"
    by (cases "pb_id a = v_product_batch_id v") simp_all
  from ref id have "pb_id a \<in> v_product_batch_id ` set (v # vs)"
    by simp
  with assms a have "requested (pb_id a) (v # vs) \<le> pb_quantity a"
    by blast
  then show "requested (pb_id b) vs \<le> pb_quantity b"
    unfolding b by (cases "pb_id a = v_product_batch_id v") (simp_all add: requested_Cons)
qed

lemma sold_then_rest:
  "map (\<lambda>b. b\<lparr>pb_quantity := pb_quantity b - requested (pb_id b) vs\<rparr>)
     (map (\<lambda>b. if pb_id b = v_product_batch_id v
                then b\<lparr>pb_quantity := pb_quantity b - v_quantity v\<rparr> else b) bs)
   = map (\<lambda>b. b\<lparr>pb_quantity := pb_quantity b - requested (pb_id b) (v # vs)\<rparr>) bs"
  by (induction bs) (simp_all add: requested_Cons)

lemma step_in_range:
  assumes suff: "\<forall>b \<in> set bs. pb_id b \<in> v_product_batch_id ` set (v # vs) \<longrightarrow>
      requested (pb_id b) (v # vs) \<le> pb_quantity b"
      and range: "\<forall>b \<in> set bs. int4_ok (pb_quantity b)"
      and qty: "\<forall>w \<in> set (v # vs). 0 \<le> v_quantity w"
  shows "\<forall>b \<in> set bs. pb_id b = v_product_batch_id v \<longrightarrow> int4_ok (pb_quantity b - v_quantity v)"
proof (intro ballI impI)
  fix b assume b: "b \<in> set bs" and id: "pb_id b = v_product_batch_id v"
  from qty have "0 \<le> requested (pb_id b) vs"
    by (intro requested_nonneg) simp
  moreover from suff b id have "requested (pb_id b) (v # vs) \<le> pb_quantity b"
    by simp
  ultimately have "v_quantity v \<le> pb_quantity b"
    using id by (simp add: requested_Cons)
  moreover from qty have "0 \<le> v_quantity v"
    by simp
  moreover from range b have "int4_ok (pb_quantity b)"
    by blast
  ultimately show "int4_ok (pb_quantity b - v_quantity v)"
    by (simp add: int4_ok_def)
qed

text \<open>
  The branch of a settlement that the code has. A caller whom the policy on
  \<^verbatim>\<open>product_batches\<close> admits inserts the lines of a sale, for a sale row that exists,
  with quantities that are not negative and prices of two decimal places. If every
  batch that a line refers to exists and holds at least the quantity that the lines
  request from it, the inserts succeed: one sale item is stored per line, with the
  values of the line, and each batch's quantity is decremented by exactly the quantity
  requested from it.
\<close>

lemma insert_sale_items_all_ok:
  assumes admitted: "managers_policy c db"
      and qty: "\<forall>v \<in> set vs. 0 \<le> v_quantity v \<and> int4_ok (v_quantity v)"
      and price: "\<forall>v \<in> set vs. numeric_10_2 (v_unit_price v) = Inr (v_unit_price v)"
      and seq: "\<forall>i \<in> set (sale_items db). si_id i < sale_items_id_seq db"
      and fk_sale: "\<forall>v \<in> set vs. v_sale_id v \<in> s_id ` set (sales db)"
      and fk_batch: "\<forall>v \<in> set vs. v_product_batch_id v \<in> pb_id ` set (product_batches db)"
      and range: "\<forall>b \<in> set (product_batches db). int4_ok (pb_quantity b)"
      and sufficient: "\<forall>b \<in> set (product_batches db).
          pb_id b \<in> v_product_batch_id ` set vs \<longrightarrow> requested (pb_id b) vs \<le> pb_quantity b"
  shows "\<exists>db'. insert_sale_items_all c vs db = Inr db'
    \<and> map values_of (sale_items db') = map values_of (sale_items db) @ vs
    \<and> product_batches db' =
        map (\<lambda>b. b\<lparr>pb_quantity := pb_quantity b - requested (pb_id b) vs\<rparr>) (product_batches db)
    \<and> sales db' = sales db"
  using assms
proof (induction vs arbitrary: db)
  case Nil
  then show ?case
    by (simp add: requested_def map_idI)
next
  case (Cons v vs)
  define row where "row =
    \<lparr>si_id = sale_items_id_seq db, si_sale_id = v_sale_id v,
      si_product_batch_id = v_product_batch_id v, si_quantity = v_quantity v,
      si_unit_price = v_unit_price v\<rparr>"
  define bs1 where "bs1 =
    map (\<lambda>b. if pb_id b = v_product_batch_id v
              then b\<lparr>pb_quantity := pb_quantity b - v_quantity v\<rparr> else b) (product_batches db)"
  define db1 where "db1 =
    db\<lparr>sale_items := sale_items db @ [row],
       sale_items_id_seq := sale_items_id_seq db + 1,
       product_batches := bs1\<rparr>"
  have fields: "sale_items db1 = sale_items db @ [row]"
    "sale_items_id_seq db1 = sale_items_id_seq db + 1"
    "product_batches db1 = bs1" "sales db1 = sales db"
    by (simp_all add: db1_def)
  have "profiles db1 = profiles db"
    by (simp add: db1_def)
  from managers_policy_profiles [OF this] Cons.prems(1) have admitted1: "managers_policy c db1"
    by simp
  have nonneg: "\<forall>w \<in> set (v # vs). 0 \<le> v_quantity w"
    using Cons.prems(2) by simp
  note step_range = step_in_range [OF Cons.prems(8) Cons.prems(7) nonneg]
  have step: "insert_sale_items c v db = Inr db1"
    unfolding db1_def bs1_def row_def
  proof (rule insert_sale_items_ok)
    show "managers_policy c db"
      by (rule Cons.prems(1))
    show "int4_ok (v_quantity v)"
      using Cons.prems(2) by simp
    show "numeric_10_2 (v_unit_price v) = Inr (v_unit_price v)"
      using Cons.prems(3) by simp
    show "v_sale_id v \<in> s_id ` set (sales db)"
      using Cons.prems(5) by simp
    show "v_product_batch_id v \<in> pb_id ` set (product_batches db)"
      using Cons.prems(6) by simp
  qed (rule Cons.prems(4), rule step_range)
  have "\<exists>db'. insert_sale_items_all c vs db1 = Inr db'
    \<and> map values_of (sale_items db') = map values_of (sale_items db1) @ vs
    \<and> product_batches db' =
        map (\<lambda>b. b\<lparr>pb_quantity := pb_quantity b - requested (pb_id b) vs\<rparr>) (product_batches db1)
    \<and> sales db' = sales db1"
  proof (rule Cons.IH)
    show "managers_policy c db1"
      by (rule admitted1)
    show "\<forall>v \<in> set vs. 0 \<le> v_quantity v \<and> int4_ok (v_quantity v)"
      using Cons.prems(2) by simp
    show "\<forall>v \<in> set vs. numeric_10_2 (v_unit_price v) = Inr (v_unit_price v)"
      using Cons.prems(3) by simp
    show "\<forall>i \<in> set (sale_items db1). si_id i < sale_items_id_seq db1"
      using Cons.prems(4) by (simp add: fields row_def) force
    show "\<forall>v \<in> set vs. v_sale_id v \<in> s_id ` set (sales db1)"
      using Cons.prems(5) by (simp add: fields)
    have ids: "pb_id ` set bs1 = pb_id ` set (product_batches db)"
      unfolding bs1_def by (rule pb_id_map_quantity)
    show "\<forall>v \<in> set vs. v_product_batch_id v \<in> pb_id ` set (product_batches db1)"
      unfolding fields ids using Cons.prems(6) by simp
    show "\<forall>b \<in> set (product_batches db1). int4_ok (pb_quantity b)"
      unfolding fields bs1_def by (rule sold_range [OF Cons.prems(7) step_range])
    show "\<forall>b \<in> set (product_batches db1).
        pb_id b \<in> v_product_batch_id ` set vs \<longrightarrow> requested (pb_id b) vs \<le> pb_quantity b"
      unfolding fields bs1_def by (rule sold_sufficient [OF Cons.prems(8)])
  qed
  then obtain db' where run: "insert_sale_items_all c vs db1 = Inr db'"
    and items: "map values_of (sale_items db') = map values_of (sale_items db1) @ vs"
    and batches: "product_batches db' =
        map (\<lambda>b. b\<lparr>pb_quantity := pb_quantity b - requested (pb_id b) vs\<rparr>) (product_batches db1)"
    and sales: "sales db' = sales db1"
    by blast
  have "insert_sale_items_all c (v # vs) db = Inr db'"
    using step run by simp
  moreover have "map values_of (sale_items db') = map values_of (sale_items db) @ v # vs"
    using items by (simp add: fields row_def values_of_new)
  moreover have "product_batches db' =
        map (\<lambda>b. b\<lparr>pb_quantity := pb_quantity b - requested (pb_id b) (v # vs)\<rparr>) (product_batches db)"
    unfolding batches fields bs1_def by (rule sold_then_rest)
  moreover have "sales db' = sales db"
    using sales by (simp add: fields)
  ultimately show ?case
    by blast
qed

text \<open>
  Claim C1 does not hold of the code: nothing tests the stock. A Super Admin inserts the
  two lines of a sale, of 2 and of 4 units, on a batch that holds 5. No error is raised
  and nothing is undone: both sale items are stored and the batch is left with
  \<open>- 1\<close>.
\<close>

theorem settlement_oversells_without_error:
  "insert_sale_items_all \<lparr>uid = Some ''a1'', bypassrls = False\<rparr>
     [\<lparr>v_sale_id = 1, v_product_batch_id = 1, v_quantity = 2, v_unit_price = 5 / 2\<rparr>,
      \<lparr>v_sale_id = 1, v_product_batch_id = 1, v_quantity = 4, v_unit_price = 5 / 2\<rparr>]
     (empty_database\<lparr>profiles :=
         [\<lparr>profile_id = ''a1'', full_name = None, avatar_url = None,
            profile_role = Super_Admin\<rparr>,
           \<lparr>profile_id = ''c1'', full_name = None, avatar_url = None,
            profile_role = Cashier\<rparr>],
       sales := [\<lparr>s_id = 1, s_cashier_id = ''a1'', s_customer_id = None, s_total_amount = 20\<rparr>],
       product_batches :=
         [\<lparr>pb_id = 1, pb_product_id = 7, pb_batch_number = None, pb_expiry_date = None,
           pb_cost_price = 2, pb_selling_price = 5 / 2, pb_quantity = 5, pb_supplier_id = None\<rparr>]\<rparr>)
   = Inr
     (empty_database\<lparr>profiles :=
         [\<lparr>profile_id = ''a1'', full_name = None, avatar_url = None,
            profile_role = Super_Admin\<rparr>,
           \<lparr>profile_id = ''c1'', full_name = None, avatar_url = None,
            profile_role = Cashier\<rparr>],
       sales := [\<lparr>s_id = 1, s_cashier_id = ''a1'', s_customer_id = None, s_total_amount = 20\<rparr>],
       product_batches :=
         [\<lparr>pb_id = 1, pb_product_id = 7, pb_batch_number = None, pb_expiry_date = None,
           pb_cost_price = 2, pb_selling_price = 5 / 2, pb_quantity = - 1, pb_supplier_id = None\<rparr>],
       sale_items :=
         [\<lparr>si_id = 1, si_sale_id = 1, si_product_batch_id = 1, si_quantity = 2, si_unit_price = 5 / 2\<rparr>,
          \<lparr>si_id = 2, si_sale_id = 1, si_product_batch_id = 1, si_quantity = 4, si_unit_price = 5 / 2\<rparr>],
       sale_items_id_seq := 3\<rparr>)"
  by (simp add: insert_sale_items_def update_stock_from_sale_def empty_database_def int4_ok_def
        int4_minus_def numeric_10_2_def numeric_round2_def floor_rat_numeral
        managers_policy_def cashiers_and_above_policy_def get_my_role_def)

text \<open>
  In the initial schema the check on \<^verbatim>\<open>batches.quantity\<close> keeps every stored quantity
  at or above zero: a write of a negative quantity is refused.
\<close>

lemma batches_check_kept:
  assumes "update_batches_quantity k q db = Inr db'"
      and "\<forall>b \<in> set (batches db). batches_check b"
  shows "\<forall>b \<in> set (batches db'). batches_check b"
proof -
  from assms(1) have no_violation:
    "\<not> (\<exists>b \<in> set (batches db). b_id b = k \<and> \<not> batches_check (b\<lparr>b_quantity := q\<rparr>))"
    and db': "batches db'
      = map (\<lambda>b. if b_id b = k then b\<lparr>b_quantity := q\<rparr> else b) (batches db)"
    by (auto simp: update_batches_quantity_def split: if_splits)
  show ?thesis
  proof
    fix b assume "b \<in> set (batches db')"
    then obtain a where a: "a \<in> set (batches db)"
      and b: "b = (if b_id a = k then a\<lparr>b_quantity := q\<rparr> else a)"
      unfolding db' set_map by blast
    from a no_violation assms(2) show "batches_check b"
      unfolding b by (cases "b_id a = k") auto
  qed
qed

lemma batches_negative_refused:
  "q < 0 \<Longrightarrow> int4_ok q \<Longrightarrow> \<exists>b \<in> set (batches db). b_id b = k
    \<Longrightarrow> update_batches_quantity k q db = Inl check_violation"
  by (auto simp: update_batches_quantity_def batches_check_def)

text \<open>
  Claim C2 does not hold of \<^verbatim>\<open>product_batches\<close>: the table has no such check and
  \<^verbatim>\<open>update_stock_from_sale\<close> subtracts without looking at the stock. A batch holds 5
  units and a Super Admin inserts a line that sells 8 of it; the insert succeeds and the
  stored quantity is \<open>- 3\<close>.
\<close>

theorem sale_drives_quantity_below_zero:
  "insert_sale_items \<lparr>uid = Some ''a1'', bypassrls = False\<rparr>
     \<lparr>v_sale_id = 1, v_product_batch_id = 1, v_quantity = 8, v_unit_price = 5 / 2\<rparr>
     (empty_database\<lparr>profiles :=
         [\<lparr>profile_id = ''a1'', full_name = None, avatar_url = None,
            profile_role = Super_Admin\<rparr>,
           \<lparr>profile_id = ''c1'', full_name = None, avatar_url = None,
            profile_role = Cashier\<rparr>],
       sales := [\<lparr>s_id = 1, s_cashier_id = ''a1'', s_customer_id = None, s_total_amount = 20\<rparr>],
       product_batches :=
         [\<lparr>pb_id = 1, pb_product_id = 7, pb_batch_number = None, pb_expiry_date = None,
           pb_cost_price = 2, pb_selling_price = 5 / 2, pb_quantity = 5, pb_supplier_id = None\<rparr>]\<rparr>)
   = Inr
     (empty_database\<lparr>profiles :=
         [\<lparr>profile_id = ''a1'', full_name = None, avatar_url = None,
            profile_role = Super_Admin\<rparr>,
           \<lparr>profile_id = ''c1'', full_name = None, avatar_url = None,
            profile_role = Cashier\<rparr>],
       sales := [\<lparr>s_id = 1, s_cashier_id = ''a1'', s_customer_id = None, s_total_amount = 20\<rparr>],
       product_batches :=
         [\<lparr>pb_id = 1, pb_product_id = 7, pb_batch_number = None, pb_expiry_date = None,
           pb_cost_price = 2, pb_selling_price = 5 / 2, pb_quantity = - 3, pb_supplier_id = None\<rparr>],
       sale_items :=
         [\<lparr>si_id = 1, si_sale_id = 1, si_product_batch_id = 1, si_quantity = 8, si_unit_price = 5 / 2\<rparr>],
       sale_items_id_seq := 2\<rparr>)
   \<and> quantity_of
     (empty_database\<lparr>profiles :=
         [\<lparr>profile_id = ''a1'', full_name = None, avatar_url = None,
            profile_role = Super_Admin\<rparr>,
           \<lparr>profile_id = ''c1'', full_name = None, avatar_url = None,
            profile_role = Cashier\<rparr>],
       sales := [\<lparr>s_id = 1, s_cashier_id = ''a1'', s_customer_id = None, s_total_amount = 20\<rparr>],
       product_batches :=
         [\<lparr>pb_id = 1, pb_product_id = 7, pb_batch_number = None, pb_expiry_date = None,
           pb_cost_price = 2, pb_selling_price = 5 / 2, pb_quantity = - 3, pb_supplier_id = None\<rparr>],
       sale_items :=
         [\<lparr>si_id = 1, si_sale_id = 1, si_product_batch_id = 1, si_quantity = 8, si_unit_price = 5 / 2\<rparr>],
       sale_items_id_seq := 2\<rparr>) 1 = Some (- 3)"
  by (simp add: insert_sale_items_def update_stock_from_sale_def empty_database_def int4_ok_def
        int4_minus_def numeric_10_2_def numeric_round2_def floor_rat_numeral
        managers_policy_def cashiers_and_above_policy_def get_my_role_def
        quantity_of_def)

text \<open>
  Claim C3, as the code has it. No operation that changes a stored quantity writes the
  ledger. A sale line whose insert succeeds leaves \<^verbatim>\<open>inventory_movements\<close> as it is; it
  changes the quantity of the referenced batch by the negative of the sold quantity
  when the policy on \<^verbatim>\<open>product_batches\<close> admits the caller, and leaves every batch as
  it is when the policy does not. All lines of a sale, the receipt of a purchase order
  item and an update of \<^verbatim>\<open>batches.quantity\<close>, when they succeed, leave
  \<^verbatim>\<open>inventory_movements\<close> as it is.
\<close>

theorem stock_changes_write_no_movement:
  "(insert_sale_items c v db = Inr dba \<longrightarrow>
      inventory_movements dba = inventory_movements db
      \<and> product_batches dba =
          (if managers_policy c db
           then map (\<lambda>b. if pb_id b = v_product_batch_id v
                          then b\<lparr>pb_quantity := pb_quantity b - v_quantity v\<rparr> else b)
                  (product_batches db)
           else product_batches db))
   \<and> (insert_sale_items_all c vs db = Inr dbb \<longrightarrow> inventory_movements dbb = inventory_movements db)
   \<and> (update_stock_from_purchase c p db = Inr dbc \<longrightarrow> inventory_movements dbc = inventory_movements db)
   \<and> (update_batches_quantity k q db = Inr dbd \<longrightarrow> inventory_movements dbd = inventory_movements db)"
proof (intro conjI impI)
  assume "insert_sale_items c v db = Inr dba"
  note step = insert_sale_items_Inr [OF this]
  from step show "inventory_movements dba = inventory_movements db"
    by auto
  from step show "product_batches dba =
          (if managers_policy c db
           then map (\<lambda>b. if pb_id b = v_product_batch_id v
                          then b\<lparr>pb_quantity := pb_quantity b - v_quantity v\<rparr> else b)
                  (product_batches db)
           else product_batches db)"
    by auto
next
  assume "insert_sale_items_all c vs db = Inr dbb"
  then show "inventory_movements dbb = inventory_movements db"
    by (rule insert_sale_items_all_movements)
next
  assume "update_stock_from_purchase c p db = Inr dbc"
  from update_stock_from_purchase_Inr [OF this]
  show "inventory_movements dbc = inventory_movements db"
    by auto
next
  assume "update_batches_quantity k q db = Inr dbd"
  from update_batches_quantity_Inr [OF this]
  show "inventory_movements dbd = inventory_movements db"
    by simp
qed

theorem stock_changes_write_no_movement_witness:
  "insert_sale_items \<lparr>uid = Some ''a1'', bypassrls = False\<rparr>
     \<lparr>v_sale_id = 1, v_product_batch_id = 1, v_quantity = 3, v_unit_price = 5 / 2\<rparr>
     (empty_database\<lparr>profiles :=
         [\<lparr>profile_id = ''a1'', full_name = None, avatar_url = None,
            profile_role = Super_Admin\<rparr>,
           \<lparr>profile_id = ''c1'', full_name = None, avatar_url = None,
            profile_role = Cashier\<rparr>],
       sales := [\<lparr>s_id = 1, s_cashier_id = ''a1'', s_customer_id = None, s_total_amount = 20\<rparr>],
       product_batches :=
         [\<lparr>pb_id = 1, pb_product_id = 7, pb_batch_number = None, pb_expiry_date = None,
           pb_cost_price = 2, pb_selling_price = 5 / 2, pb_quantity = 5, pb_supplier_id = None\<rparr>],
       product_batches_id_seq := 2,
       purchase_order_items :=
         [\<lparr>poi_id = 1, poi_purchase_order_id = 1, poi_product_id = 7, poi_quantity = 10,
           poi_unit_cost = 3 / 100, poi_batch_number = Some ''B1'', poi_expiry_date = None\<rparr>],
       batches :=
         [\<lparr>b_id = ''b1'', b_product_id = ''p1'', b_batch_number = ''L1'', b_expiry_date = None, b_quantity = 4\<rparr>]\<rparr>)
   = Inr
     (empty_database\<lparr>profiles :=
         [\<lparr>profile_id = ''a1'', full_name = None, avatar_url = None,
            profile_role = Super_Admin\<rparr>,
           \<lparr>profile_id = ''c1'', full_name = None, avatar_url = None,
            profile_role = Cashier\<rparr>],
       sales := [\<lparr>s_id = 1, s_cashier_id = ''a1'', s_customer_id = None, s_total_amount = 20\<rparr>],
       product_batches :=
         [\<lparr>pb_id = 1, pb_product_id = 7, pb_batch_number = None, pb_expiry_date = None,
           pb_cost_price = 2, pb_selling_price = 5 / 2, pb_quantity = 2, pb_supplier_id = None\<rparr>],
       product_batches_id_seq := 2,
       purchase_order_items :=
         [\<lparr>poi_id = 1, poi_purchase_order_id = 1, poi_product_id = 7, poi_quantity = 10,
           poi_unit_cost = 3 / 100, poi_batch_number = Some ''B1'', poi_expiry_date = None\<rparr>],
       batches :=
         [\<lparr>b_id = ''b1'', b_product_id = ''p1'', b_batch_number = ''L1'', b_expiry_date = None, b_quantity = 4\<rparr>],
       sale_items :=
         [\<lparr>si_id = 1, si_sale_id = 1, si_product_batch_id = 1, si_quantity = 3, si_unit_price = 5 / 2\<rparr>],
       sale_items_id_seq := 2\<rparr>)
   \<and> insert_sale_items_all \<lparr>uid = Some ''a1'', bypassrls = False\<rparr>
     [\<lparr>v_sale_id = 1, v_product_batch_id = 1, v_quantity = 2, v_unit_price = 5 / 2\<rparr>,
      \<lparr>v_sale_id = 1, v_product_batch_id = 1, v_quantity = 4, v_unit_price = 5 / 2\<rparr>]
     (empty_database\<lparr>profiles :=
         [\<lparr>profile_id = ''a1'', full_name = None, avatar_url = None,
            profile_role = Super_Admin\<rparr>,
           \<lparr>profile_id = ''c1'', full_name = None, avatar_url = None,
            profile_role = Cashier\<rparr>],
       sales := [\<lparr>s_id = 1, s_cashier_id = ''a1'', s_customer_id = None, s_total_amount = 20\<rparr>],
       product_batches :=
         [\<lparr>pb_id = 1, pb_product_id = 7, pb_batch_number = None, pb_expiry_date = None,
           pb_cost_price = 2, pb_selling_price = 5 / 2, pb_quantity = 5, pb_supplier_id = None\<rparr>],
       product_batches_id_seq := 2,
       purchase_order_items :=
         [\<lparr>poi_id = 1, poi_purchase_order_id = 1, poi_product_id = 7, poi_quantity = 10,
           poi_unit_cost = 3 / 100, poi_batch_number = Some ''B1'', poi_expiry_date = None\<rparr>],
       batches :=
         [\<lparr>b_id = ''b1'', b_product_id = ''p1'', b_batch_number = ''L1'', b_expiry_date = None, b_quantity = 4\<rparr>]\<rparr>)
   = Inr
     (empty_database\<lparr>profiles :=
         [\<lparr>profile_id = ''a1'', full_name = None, avatar_url = None,
            profile_role = Super_Admin\<rparr>,
           \<lparr>profile_id = ''c1'', full_name = None, avatar_url = None,
            profile_role = Cashier\<rparr>],
       sales := [\<lparr>s_id = 1, s_cashier_id = ''a1'', s_customer_id = None, s_total_amount = 20\<rparr>],
       product_batches :=
         [\<lparr>pb_id = 1, pb_product_id = 7, pb_batch_number = None, pb_expiry_date = None,
           pb_cost_price = 2, pb_selling_price = 5 / 2, pb_quantity = - 1, pb_supplier_id = None\<rparr>],
       product_batches_id_seq := 2,
       purchase_order_items :=
         [\<lparr>poi_id = 1, poi_purchase_order_id = 1, poi_product_id = 7, poi_quantity = 10,
           poi_unit_cost = 3 / 100, poi_batch_number = Some ''B1'', poi_expiry_date = None\<rparr>],
       batches :=
         [\<lparr>b_id = ''b1'', b_product_id = ''p1'', b_batch_number = ''L1'', b_expiry_date = None, b_quantity = 4\<rparr>],
       sale_items :=
         [\<lparr>si_id = 1, si_sale_id = 1, si_product_batch_id = 1, si_quantity = 2, si_unit_price = 5 / 2\<rparr>,
          \<lparr>si_id = 2, si_sale_id = 1, si_product_batch_id = 1, si_quantity = 4, si_unit_price = 5 / 2\<rparr>],
       sale_items_id_seq := 3\<rparr>)
   \<and> update_stock_from_purchase \<lparr>uid = Some ''a1'', bypassrls = False\<rparr> 1
     (empty_database\<lparr>profiles :=
         [\<lparr>profile_id = ''a1'', full_name = None, avatar_url = None,
            profile_role = Super_Admin\<rparr>,
           \<lparr>profile_id = ''c1'', full_name = None, avatar_url = None,
            profile_role = Cashier\<rparr>],
       sales := [\<lparr>s_id = 1, s_cashier_id = ''a1'', s_customer_id = None, s_total_amount = 20\<rparr>],
       product_batches :=
         [\<lparr>pb_id = 1, pb_product_id = 7, pb_batch_number = None, pb_expiry_date = None,
           pb_cost_price = 2, pb_selling_price = 5 / 2, pb_quantity = 5, pb_supplier_id = None\<rparr>],
       product_batches_id_seq := 2,
       purchase_order_items :=
         [\<lparr>poi_id = 1, poi_purchase_order_id = 1, poi_product_id = 7, poi_quantity = 10,
           poi_unit_cost = 3 / 100, poi_batch_number = Some ''B1'', poi_expiry_date = None\<rparr>],
       batches :=
         [\<lparr>b_id = ''b1'', b_product_id = ''p1'', b_batch_number = ''L1'', b_expiry_date = None, b_quantity = 4\<rparr>]\<rparr>)
   = Inr
     (empty_database\<lparr>profiles :=
         [\<lparr>profile_id = ''a1'', full_name = None, avatar_url = None,
            profile_role = Super_Admin\<rparr>,
           \<lparr>profile_id = ''c1'', full_name = None, avatar_url = None,
            profile_role = Cashier\<rparr>],
       sales := [\<lparr>s_id = 1, s_cashier_id = ''a1'', s_customer_id = None, s_total_amount = 20\<rparr>],
       product_batches :=
         [\<lparr>pb_id = 1, pb_product_id = 7, pb_batch_number = None, pb_expiry_date = None,
           pb_cost_price = 2, pb_selling_price = 5 / 2, pb_quantity = 5, pb_supplier_id = None\<rparr>,
          \<lparr>pb_id = 2, pb_product_id = 7, pb_batch_number = Some ''B1'', pb_expiry_date = None,
           pb_cost_price = 3 / 100, pb_selling_price = 4 / 100, pb_quantity = 10,
           pb_supplier_id = None\<rparr>],
       product_batches_id_seq := 3,
       purchase_order_items :=
         [\<lparr>poi_id = 1, poi_purchase_order_id = 1, poi_product_id = 7, poi_quantity = 10,
           poi_unit_cost = 3 / 100, poi_batch_number = Some ''B1'', poi_expiry_date = None\<rparr>],
       batches :=
         [\<lparr>b_id = ''b1'', b_product_id = ''p1'', b_batch_number = ''L1'', b_expiry_date = None, b_quantity = 4\<rparr>]\<rparr>)
   \<and> update_batches_quantity ''b1'' 9
     (empty_database\<lparr>profiles :=
         [\<lparr>profile_id = ''a1'', full_name = None, avatar_url = None,
            profile_role = Super_Admin\<rparr>,
           \<lparr>profile_id = ''c1'', full_name = None, avatar_url = None,
            profile_role = Cashier\<rparr>],
       sales := [\<lparr>s_id = 1, s_cashier_id = ''a1'', s_customer_id = None, s_total_amount = 20\<rparr>],
       product_batches :=
         [\<lparr>pb_id = 1, pb_product_id = 7, pb_batch_number = None, pb_expiry_date = None,
           pb_cost_price = 2, pb_selling_price = 5 / 2, pb_quantity = 5, pb_supplier_id = None\<rparr>],
       product_batches_id_seq := 2,
       purchase_order_items :=
         [\<lparr>poi_id = 1, poi_purchase_order_id = 1, poi_product_id = 7, poi_quantity = 10,
           poi_unit_cost = 3 / 100, poi_batch_number = Some ''B1'', poi_expiry_date = None\<rparr>],
       batches :=
         [\<lparr>b_id = ''b1'', b_product_id = ''p1'', b_batch_number = ''L1'', b_expiry_date = None, b_quantity = 4\<rparr>]\<rparr>)
   = Inr
     (empty_database\<lparr>profiles :=
         [\<lparr>profile_id = ''a1'', full_name = None, avatar_url = None,
            profile_role = Super_Admin\<rparr>,
           \<lparr>profile_id = ''c1'', full_name = None, avatar_url = None,
            profile_role = Cashier\<rparr>],
       sales := [\<lparr>s_id = 1, s_cashier_id = ''a1'', s_customer_id = None, s_total_amount = 20\<rparr>],
       product_batches :=
         [\<lparr>pb_id = 1, pb_product_id = 7, pb_batch_number = None, pb_expiry_date = None,
           pb_cost_price = 2, pb_selling_price = 5 / 2, pb_quantity = 5, pb_supplier_id = None\<rparr>],
       product_batches_id_seq := 2,
       purchase_order_items :=
         [\<lparr>poi_id = 1, poi_purchase_order_id = 1, poi_product_id = 7, poi_quantity = 10,
           poi_unit_cost = 3 / 100, poi_batch_number = Some ''B1'', poi_expiry_date = None\<rparr>],
       batches :=
         [\<lparr>b_id = ''b1'', b_product_id = ''p1'', b_batch_number = ''L1'', b_expiry_date = None, b_quantity = 9\<rparr>]\<rparr>)
   \<and> insert_sale_items \<lparr>uid = Some ''c1'', bypassrls = False\<rparr>
     \<lparr>v_sale_id = 1, v_product_batch_id = 1, v_quantity = 3, v_unit_price = 5 / 2\<rparr>
     (empty_database\<lparr>profiles :=
         [\<lparr>profile_id = ''a1'', full_name = None, avatar_url = None,
            profile_role = Super_Admin\<rparr>,
           \<lparr>profile_id = ''c1'', full_name = None, avatar_url = None,
            profile_role = Cashier\<rparr>],
       sales := [\<lparr>s_id = 1, s_cashier_id = ''a1'', s_customer_id = None, s_total_amount = 20\<rparr>],
       product_batches :=
         [\<lparr>pb_id = 1, pb_product_id = 7, pb_batch_number = None, pb_expiry_date = None,
           pb_cost_price = 2, pb_selling_price = 5 / 2, pb_quantity = 5, pb_supplier_id = None\<rparr>],
       product_batches_id_seq := 2,
       purchase_order_items :=
         [\<lparr>poi_id = 1, poi_purchase_order_id = 1, poi_product_id = 7, poi_quantity = 10,
           poi_unit_cost = 3 / 100, poi_batch_number = Some ''B1'', poi_expiry_date = None\<rparr>],
       batches :=
         [\<lparr>b_id = ''b1'', b_product_id = ''p1'', b_batch_number = ''L1'', b_expiry_date = None, b_quantity = 4\<rparr>]\<rparr>)
   = Inr
     (empty_database\<lparr>profiles :=
         [\<lparr>profile_id = ''a1'', full_name = None, avatar_url = None,
            profile_role = Super_Admin\<rparr>,
           \<lparr>profile_id = ''c1'', full_name = None, avatar_url = None,
            profile_role = Cashier\<rparr>],
       sales := [\<lparr>s_id = 1, s_cashier_id = ''a1'', s_customer_id = None, s_total_amount = 20\<rparr>],
       product_batches :=
         [\<lparr>pb_id = 1, pb_product_id = 7, pb_batch_number = None, pb_expiry_date = None,
           pb_cost_price = 2, pb_selling_price = 5 / 2, pb_quantity = 5, pb_supplier_id = None\<rparr>],
       product_batches_id_seq := 2,
       purchase_order_items :=
         [\<lparr>poi_id = 1, poi_purchase_order_id = 1, poi_product_id = 7, poi_quantity = 10,
           poi_unit_cost = 3 / 100, poi_batch_number = Some ''B1'', poi_expiry_date = None\<rparr>],
       batches :=
         [\<lparr>b_id = ''b1'', b_product_id = ''p1'', b_batch_number = ''L1'', b_expiry_date = None, b_quantity = 4\<rparr>],
       sale_items :=
         [\<lparr>si_id = 1, si_sale_id = 1, si_product_batch_id = 1, si_quantity = 3, si_unit_price = 5 / 2\<rparr>],
       sale_items_id_seq := 2\<rparr>)
   \<and> inventory_movements
     (empty_database\<lparr>profiles :=
         [\<lparr>profile_id = ''a1'', full_name = None, avatar_url = None,
            profile_role = Super_Admin\<rparr>,
           \<lparr>profile_id = ''c1'', full_name = None, avatar_url = None,
            profile_role = Cashier\<rparr>],
       sales := [\<lparr>s_id = 1, s_cashier_id = ''a1'', s_customer_id = None, s_total_amount = 20\<rparr>],
       product_batches :=
         [\<lparr>pb_id = 1, pb_product_id = 7, pb_batch_number = None, pb_expiry_date = None,
           pb_cost_price = 2, pb_selling_price = 5 / 2, pb_quantity = - 1, pb_supplier_id = None\<rparr>],
       product_batches_id_seq := 2,
       purchase_order_items :=
         [\<lparr>poi_id = 1, poi_purchase_order_id = 1, poi_product_id = 7, poi_quantity = 10,
           poi_unit_cost = 3 / 100, poi_batch_number = Some ''B1'', poi_expiry_date = None\<rparr>],
       batches :=
         [\<lparr>b_id = ''b1'', b_product_id = ''p1'', b_batch_number = ''L1'', b_expiry_date = None, b_quantity = 4\<rparr>],
       sale_items :=
         [\<lparr>si_id = 1, si_sale_id = 1, si_product_batch_id = 1, si_quantity = 2, si_unit_price = 5 / 2\<rparr>,
          \<lparr>si_id = 2, si_sale_id = 1, si_product_batch_id = 1, si_quantity = 4, si_unit_price = 5 / 2\<rparr>],
       sale_items_id_seq := 3\<rparr>) = []"
  using stock_changes_write_no_movement
    [where db = "empty_database\<lparr>profiles :=
                    [\<lparr>profile_id = ''a1'', full_name = None, avatar_url = None,
                       profile_role = Super_Admin\<rparr>,
                      \<lparr>profile_id = ''c1'', full_name = None, avatar_url = None,
                       profile_role = Cashier\<rparr>],
                  sales := [\<lparr>s_id = 1, s_cashier_id = ''a1'', s_customer_id = None, s_total_amount = 20\<rparr>],
                  product_batches :=
                    [\<lparr>pb_id = 1, pb_product_id = 7, pb_batch_number = None, pb_expiry_date = None,
                      pb_cost_price = 2, pb_selling_price = 5 / 2, pb_quantity = 5, pb_supplier_id = None\<rparr>],
                  product_batches_id_seq := 2,
                  purchase_order_items :=
                    [\<lparr>poi_id = 1, poi_purchase_order_id = 1, poi_product_id = 7, poi_quantity = 10,
                      poi_unit_cost = 3 / 100, poi_batch_number = Some ''B1'', poi_expiry_date = None\<rparr>],
                  batches :=
                    [\<lparr>b_id = ''b1'', b_product_id = ''p1'', b_batch_number = ''L1'', b_expiry_date = None, b_quantity = 4\<rparr>]\<rparr>"
       and c = "\<lparr>uid = Some ''a1'', bypassrls = False\<rparr>"
       and v = "\<lparr>v_sale_id = 1, v_product_batch_id = 1, v_quantity = 3, v_unit_price = 5 / 2\<rparr>"
       and dba = "empty_database\<lparr>profiles :=
                     [\<lparr>profile_id = ''a1'', full_name = None, avatar_url = None,
                        profile_role = Super_Admin\<rparr>,
                       \<lparr>profile_id = ''c1'', full_name = None, avatar_url = None,
                        profile_role = Cashier\<rparr>],
                   sales := [\<lparr>s_id = 1, s_cashier_id = ''a1'', s_customer_id = None, s_total_amount = 20\<rparr>],
                   product_batches :=
                     [\<lparr>pb_id = 1, pb_product_id = 7, pb_batch_number = None, pb_expiry_date = None,
                       pb_cost_price = 2, pb_selling_price = 5 / 2, pb_quantity = 2, pb_supplier_id = None\<rparr>],
                   product_batches_id_seq := 2,
                   purchase_order_items :=
                     [\<lparr>poi_id = 1, poi_purchase_order_id = 1, poi_product_id = 7, poi_quantity = 10,
                       poi_unit_cost = 3 / 100, poi_batch_number = Some ''B1'', poi_expiry_date = None\<rparr>],
                   batches :=
                     [\<lparr>b_id = ''b1'', b_product_id = ''p1'', b_batch_number = ''L1'', b_expiry_date = None, b_quantity = 4\<rparr>],
                   sale_items :=
                     [\<lparr>si_id = 1, si_sale_id = 1, si_product_batch_id = 1, si_quantity = 3, si_unit_price = 5 / 2\<rparr>],
                   sale_items_id_seq := 2\<rparr>"
       and vs = "[\<lparr>v_sale_id = 1, v_product_batch_id = 1, v_quantity = 2, v_unit_price = 5 / 2\<rparr>,
                  \<lparr>v_sale_id = 1, v_product_batch_id = 1, v_quantity = 4, v_unit_price = 5 / 2\<rparr>]"
       and dbb = "empty_database\<lparr>profiles :=
                     [\<lparr>profile_id = ''a1'', full_name = None, avatar_url = None,
                        profile_role = Super_Admin\<rparr>,
                       \<lparr>profile_id = ''c1'', full_name = None, avatar_url = None,
                        profile_role = Cashier\<rparr>],
                   sales := [\<lparr>s_id = 1, s_cashier_id = ''a1'', s_customer_id = None, s_total_amount = 20\<rparr>],
                   product_batches :=
                     [\<lparr>pb_id = 1, pb_product_id = 7, pb_batch_number = None, pb_expiry_date = None,
                       pb_cost_price = 2, pb_selling_price = 5 / 2, pb_quantity = - 1, pb_supplier_id = None\<rparr>],
                   product_batches_id_seq := 2,
                   purchase_order_items :=
                     [\<lparr>poi_id = 1, poi_purchase_order_id = 1, poi_product_id = 7, poi_quantity = 10,
                       poi_unit_cost = 3 / 100, poi_batch_number = Some ''B1'', poi_expiry_date = None\<rparr>],
                   batches :=
                     [\<lparr>b_id = ''b1'', b_product_id = ''p1'', b_batch_number = ''L1'', b_expiry_date = None, b_quantity = 4\<rparr>],
                   sale_items :=
                     [\<lparr>si_id = 1, si_sale_id = 1, si_product_batch_id = 1, si_quantity = 2, si_unit_price = 5 / 2\<rparr>,
                      \<lparr>si_id = 2, si_sale_id = 1, si_product_batch_id = 1, si_quantity = 4, si_unit_price = 5 / 2\<rparr>],
                   sale_items_id_seq := 3\<rparr>"
       and p = 1
       and dbc = "empty_database\<lparr>profiles :=
                     [\<lparr>profile_id = ''a1'', full_name = None, avatar_url = None,
                        profile_role = Super_Admin\<rparr>,
                       \<lparr>profile_id = ''c1'', full_name = None, avatar_url = None,
                        profile_role = Cashier\<rparr>],
                   sales := [\<lparr>s_id = 1, s_cashier_id = ''a1'', s_customer_id = None, s_total_amount = 20\<rparr>],
                   product_batches :=
                     [\<lparr>pb_id = 1, pb_product_id = 7, pb_batch_number = None, pb_expiry_date = None,
                       pb_cost_price = 2, pb_selling_price = 5 / 2, pb_quantity = 5, pb_supplier_id = None\<rparr>,
                      \<lparr>pb_id = 2, pb_product_id = 7, pb_batch_number = Some ''B1'', pb_expiry_date = None,
                       pb_cost_price = 3 / 100, pb_selling_price = 4 / 100, pb_quantity = 10,
                       pb_supplier_id = None\<rparr>],
                   product_batches_id_seq := 3,
                   purchase_order_items :=
                     [\<lparr>poi_id = 1, poi_purchase_order_id = 1, poi_product_id = 7, poi_quantity = 10,
                       poi_unit_cost = 3 / 100, poi_batch_number = Some ''B1'', poi_expiry_date = None\<rparr>],
                   batches :=
                     [\<lparr>b_id = ''b1'', b_product_id = ''p1'', b_batch_number = ''L1'', b_expiry_date = None, b_quantity = 4\<rparr>]\<rparr>"
       and k = "''b1''" and q = 9
       and dbd = "empty_database\<lparr>profiles :=
                     [\<lparr>profile_id = ''a1'', full_name = None, avatar_url = None,
                        profile_role = Super_Admin\<rparr>,
                       \<lparr>profile_id = ''c1'', full_name = None, avatar_url = None,
                        profile_role = Cashier\<rparr>],
                   sales := [\<lparr>s_id = 1, s_cashier_id = ''a1'', s_customer_id = None, s_total_amount = 20\<rparr>],
                   product_batches :=
                     [\<lparr>pb_id = 1, pb_product_id = 7, pb_batch_number = None, pb_expiry_date = None,
                       pb_cost_price = 2, pb_selling_price = 5 / 2, pb_quantity = 5, pb_supplier_id = None\<rparr>],
                   product_batches_id_seq := 2,
                   purchase_order_items :=
                     [\<lparr>poi_id = 1, poi_purchase_order_id = 1, poi_product_id = 7, poi_quantity = 10,
                       poi_unit_cost = 3 / 100, poi_batch_number = Some ''B1'', poi_expiry_date = None\<rparr>],
                   batches :=
                     [\<lparr>b_id = ''b1'', b_product_id = ''p1'', b_batch_number = ''L1'', b_expiry_date = None, b_quantity = 9\<rparr>]\<rparr>"]
    stock_changes_write_no_movement
    [where db = "empty_database\<lparr>profiles :=
                    [\<lparr>profile_id = ''a1'', full_name = None, avatar_url = None,
                       profile_role = Super_Admin\<rparr>,
                      \<lparr>profile_id = ''c1'', full_name = None, avatar_url = None,
                       profile_role = Cashier\<rparr>],
                  sales := [\<lparr>s_id = 1, s_cashier_id = ''a1'', s_customer_id = None, s_total_amount = 20\<rparr>],
                  product_batches :=
                    [\<lparr>pb_id = 1, pb_product_id = 7, pb_batch_number = None, pb_expiry_date = None,
                      pb_cost_price = 2, pb_selling_price = 5 / 2, pb_quantity = 5, pb_supplier_id = None\<rparr>],
                  product_batches_id_seq := 2,
                  purchase_order_items :=
                    [\<lparr>poi_id = 1, poi_purchase_order_id = 1, poi_product_id = 7, poi_quantity = 10,
                      poi_unit_cost = 3 / 100, poi_batch_number = Some ''B1'', poi_expiry_date = None\<rparr>],
                  batches :=
                    [\<lparr>b_id = ''b1'', b_product_id = ''p1'', b_batch_number = ''L1'', b_expiry_date = None, b_quantity = 4\<rparr>]\<rparr>"
       and c = "\<lparr>uid = Some ''c1'', bypassrls = False\<rparr>"
       and v = "\<lparr>v_sale_id = 1, v_product_batch_id = 1, v_quantity = 3, v_unit_price = 5 / 2\<rparr>"
       and dba = "empty_database\<lparr>profiles :=
                     [\<lparr>profile_id = ''a1'', full_name = None, avatar_url = None,
                        profile_role = Super_Admin\<rparr>,
                       \<lparr>profile_id = ''c1'', full_name = None, avatar_url = None,
                        profile_role = Cashier\<rparr>],
                   sales := [\<lparr>s_id = 1, s_cashier_id = ''a1'', s_customer_id = None, s_total_amount = 20\<rparr>],
                   product_batches :=
                     [\<lparr>pb_id = 1, pb_product_id = 7, pb_batch_number = None, pb_expiry_date = None,
                       pb_cost_price = 2, pb_selling_price = 5 / 2, pb_quantity = 5, pb_supplier_id = None\<rparr>],
                   product_batches_id_seq := 2,
                   purchase_order_items :=
                     [\<lparr>poi_id = 1, poi_purchase_order_id = 1, poi_product_id = 7, poi_quantity = 10,
                       poi_unit_cost = 3 / 100, poi_batch_number = Some ''B1'', poi_expiry_date = None\<rparr>],
                   batches :=
                     [\<lparr>b_id = ''b1'', b_product_id = ''p1'', b_batch_number = ''L1'', b_expiry_date = None, b_quantity = 4\<rparr>],
                   sale_items :=
                     [\<lparr>si_id = 1, si_sale_id = 1, si_product_batch_id = 1, si_quantity = 3, si_unit_price = 5 / 2\<rparr>],
                   sale_items_id_seq := 2\<rparr>"]
  by (simp add: insert_sale_items_def update_stock_from_sale_def empty_database_def int4_ok_def
        int4_minus_def numeric_10_2_def numeric_round2_def floor_rat_numeral
        managers_policy_def cashiers_and_above_policy_def get_my_role_def
        update_stock_from_purchase_def update_batches_quantity_def batches_check_def)

text \<open>
  A Super Admin inserts a line that sells 3 units of a batch of 5. The quantity changes
  from 5 to 2 and the ledger is still empty: the change has no movement row.
\<close>

theorem sale_changes_quantity_without_movement:
  "insert_sale_items \<lparr>uid = Some ''a1'', bypassrls = False\<rparr>
     \<lparr>v_sale_id = 1, v_product_batch_id = 1, v_quantity = 3, v_unit_price = 5 / 2\<rparr>
     (empty_database\<lparr>profiles :=
         [\<lparr>profile_id = ''a1'', full_name = None, avatar_url = None,
            profile_role = Super_Admin\<rparr>,
           \<lparr>profile_id = ''c1'', full_name = None, avatar_url = None,
            profile_role = Cashier\<rparr>],
       sales := [\<lparr>s_id = 1, s_cashier_id = ''a1'', s_customer_id = None, s_total_amount = 20\<rparr>],
       product_batches :=
         [\<lparr>pb_id = 1, pb_product_id = 7, pb_batch_number = None, pb_expiry_date = None,
           pb_cost_price = 2, pb_selling_price = 5 / 2, pb_quantity = 5, pb_supplier_id = None\<rparr>]\<rparr>)
   = Inr
     (empty_database\<lparr>profiles :=
         [\<lparr>profile_id = ''a1'', full_name = None, avatar_url = None,
            profile_role = Super_Admin\<rparr>,
           \<lparr>profile_id = ''c1'', full_name = None, avatar_url = None,
            profile_role = Cashier\<rparr>],
       sales := [\<lparr>s_id = 1, s_cashier_id = ''a1'', s_customer_id = None, s_total_amount = 20\<rparr>],
       product_batches :=
         [\<lparr>pb_id = 1, pb_product_id = 7, pb_batch_number = None, pb_expiry_date = None,
           pb_cost_price = 2, pb_selling_price = 5 / 2, pb_quantity = 2, pb_supplier_id = None\<rparr>],
       sale_items :=
         [\<lparr>si_id = 1, si_sale_id = 1, si_product_batch_id = 1, si_quantity = 3, si_unit_price = 5 / 2\<rparr>],
       sale_items_id_seq := 2\<rparr>)
   \<and> quantity_of
     (empty_database\<lparr>profiles :=
         [\<lparr>profile_id = ''a1'', full_name = None, avatar_url = None,
            profile_role = Super_Admin\<rparr>,
           \<lparr>profile_id = ''c1'', full_name = None, avatar_url = None,
            profile_role = Cashier\<rparr>],
       sales := [\<lparr>s_id = 1, s_cashier_id = ''a1'', s_customer_id = None, s_total_amount = 20\<rparr>],
       product_batches :=
         [\<lparr>pb_id = 1, pb_product_id = 7, pb_batch_number = None, pb_expiry_date = None,
           pb_cost_price = 2, pb_selling_price = 5 / 2, pb_quantity = 5, pb_supplier_id = None\<rparr>]\<rparr>) 1 = Some 5
   \<and> quantity_of
     (empty_database\<lparr>profiles :=
         [\<lparr>profile_id = ''a1'', full_name = None, avatar_url = None,
            profile_role = Super_Admin\<rparr>,
           \<lparr>profile_id = ''c1'', full_name = None, avatar_url = None,
            profile_role = Cashier\<rparr>],
       sales := [\<lparr>s_id = 1, s_cashier_id = ''a1'', s_customer_id = None, s_total_amount = 20\<rparr>],
       product_batches :=
         [\<lparr>pb_id = 1, pb_product_id = 7, pb_batch_number = None, pb_expiry_date = None,
           pb_cost_price = 2, pb_selling_price = 5 / 2, pb_quantity = 2, pb_supplier_id = None\<rparr>],
       sale_items :=
         [\<lparr>si_id = 1, si_sale_id = 1, si_product_batch_id = 1, si_quantity = 3, si_unit_price = 5 / 2\<rparr>],
       sale_items_id_seq := 2\<rparr>) 1 = Some 2
   \<and> inventory_movements
     (empty_database\<lparr>profiles :=
         [\<lparr>profile_id = ''a1'', full_name = None, avatar_url = None,
            profile_role = Super_Admin\<rparr>,
           \<lparr>profile_id = ''c1'', full_name = None, avatar_url = None,
            profile_role = Cashier\<rparr>],
       sales := [\<lparr>s_id = 1, s_cashier_id = ''a1'', s_customer_id = None, s_total_amount = 20\<rparr>],
       product_batches :=
         [\<lparr>pb_id = 1, pb_product_id = 7, pb_batch_number = None, pb_expiry_date = None,
           pb_cost_price = 2, pb_selling_price = 5 / 2, pb_quantity = 2, pb_supplier_id = None\<rparr>],
       sale_items :=
         [\<lparr>si_id = 1, si_sale_id = 1, si_product_batch_id = 1, si_quantity = 3, si_unit_price = 5 / 2\<rparr>],
       sale_items_id_seq := 2\<rparr>) = []"
  by (simp add: insert_sale_items_def update_stock_from_sale_def empty_database_def int4_ok_def
        int4_minus_def numeric_10_2_def numeric_round2_def floor_rat_numeral
        managers_policy_def cashiers_and_above_policy_def get_my_role_def
        quantity_of_def)

subsection \<open>Purchase receipt\<close>

lemma on_hand_append:
  "on_hand (db\<lparr>product_batches := product_batches db @ [b],
              product_batches_id_seq := n\<rparr>) (pb_product_id b)
   = on_hand db (pb_product_id b) + pb_quantity b"
  by (simp add: on_hand_def)

text \<open>
  Claim C5, as the code has it. A caller whom the policy on \<^verbatim>\<open>product_batches\<close> and
  \<^verbatim>\<open>purchase_order_items\<close> admits receives a purchase order item that exists, whose unit
  cost is a value of the column type and whose unit cost times 1.25, rounded to two
  decimal places, is below \<open>10\<^sup>8\<close> in absolute value, while the next id of the batch
  sequence is unused. The receipt succeeds and appends one batch: its cost price is the
  unit cost, its selling price is the unit cost times 1.25 rounded to two decimal places,
  its quantity is the ordered quantity, and the quantity on hand of the product grows by
  exactly the ordered quantity. No movement is written to the ledger.
\<close>

theorem purchase_receipt_creates_batch:
  assumes admitted: "managers_policy c db"
      and item: "find (\<lambda>i. poi_id i = p) (purchase_order_items db) = Some item"
      and cost: "numeric_10_2 (poi_unit_cost item) = Inr (poi_unit_cost item)"
      and price: "\<bar>numeric_round2 (poi_unit_cost item * 1.25)\<bar> < 100000000"
      and seq: "product_batches_id_seq db \<notin> pb_id ` set (product_batches db)"
  shows "\<exists>db'. update_stock_from_purchase c p db = Inr db'
    \<and> product_batches db' = product_batches db @
         [\<lparr>pb_id = product_batches_id_seq db, pb_product_id = poi_product_id item,
           pb_batch_number = poi_batch_number item, pb_expiry_date = poi_expiry_date item,
           pb_cost_price = poi_unit_cost item,
           pb_selling_price = numeric_round2 (poi_unit_cost item * 1.25),
           pb_quantity = poi_quantity item, pb_supplier_id = None\<rparr>]
    \<and> on_hand db' (poi_product_id item) = on_hand db (poi_product_id item) + poi_quantity item
    \<and> inventory_movements db' = inventory_movements db"
proof -
  define batch where "batch =
    \<lparr>pb_id = product_batches_id_seq db, pb_product_id = poi_product_id item,
      pb_batch_number = poi_batch_number item, pb_expiry_date = poi_expiry_date item,
      pb_cost_price = poi_unit_cost item,
      pb_selling_price = numeric_round2 (poi_unit_cost item * 1.25),
      pb_quantity = poi_quantity item, pb_supplier_id = None\<rparr>"
  define db' where "db' = db\<lparr>product_batches := product_batches db @ [batch],
    product_batches_id_seq := product_batches_id_seq db + 1\<rparr>"
  from price have sell: "numeric_10_2 (poi_unit_cost item * 1.25)
      = Inr (numeric_round2 (poi_unit_cost item * 1.25))"
    by (simp add: numeric_10_2_def)
  have run: "update_stock_from_purchase c p db = Inr db'"
    using admitted item cost sell seq
    by (simp add: update_stock_from_purchase_def db'_def batch_def)
  have "on_hand db' (pb_product_id batch) = on_hand db (pb_product_id batch) + pb_quantity batch"
    unfolding db'_def by (rule on_hand_append)
  then have stock: "on_hand db' (poi_product_id item)
      = on_hand db (poi_product_id item) + poi_quantity item"
    by (simp add: batch_def)
  have "product_batches db' = product_batches db @ [batch]"
    and "inventory_movements db' = inventory_movements db"
    by (simp_all add: db'_def)
  with run stock show ?thesis
    unfolding batch_def by blast
qed

theorem purchase_receipt_creates_batch_witness:
  "update_stock_from_purchase \<lparr>uid = Some ''a1'', bypassrls = False\<rparr> 1
     (empty_database\<lparr>profiles :=
         [\<lparr>profile_id = ''a1'', full_name = None, avatar_url = None,
            profile_role = Super_Admin\<rparr>,
           \<lparr>profile_id = ''c1'', full_name = None, avatar_url = None,
            profile_role = Cashier\<rparr>],
       purchase_order_items :=
         [\<lparr>poi_id = 1, poi_purchase_order_id = 1, poi_product_id = 7, poi_quantity = 10,
           poi_unit_cost = 3 / 100, poi_batch_number = Some ''B1'', poi_expiry_date = None\<rparr>]\<rparr>)
   = Inr
     (empty_database\<lparr>profiles :=
         [\<lparr>profile_id = ''a1'', full_name = None, avatar_url = None,
            profile_role = Super_Admin\<rparr>,
           \<lparr>profile_id = ''c1'', full_name = None, avatar_url = None,
            profile_role = Cashier\<rparr>],
       purchase_order_items :=
         [\<lparr>poi_id = 1, poi_purchase_order_id = 1, poi_product_id = 7, poi_quantity = 10,
           poi_unit_cost = 3 / 100, poi_batch_number = Some ''B1'', poi_expiry_date = None\<rparr>],
       product_batches :=
         [\<lparr>pb_id = 1, pb_product_id = 7, pb_batch_number = Some ''B1'', pb_expiry_date = None,
           pb_cost_price = 3 / 100, pb_selling_price = 4 / 100, pb_quantity = 10,
           pb_supplier_id = None\<rparr>],
       product_batches_id_seq := 2\<rparr>)
   \<and> on_hand
     (empty_database\<lparr>profiles :=
         [\<lparr>profile_id = ''a1'', full_name = None, avatar_url = None,
            profile_role = Super_Admin\<rparr>,
           \<lparr>profile_id = ''c1'', full_name = None, avatar_url = None,
            profile_role = Cashier\<rparr>],
       purchase_order_items :=
         [\<lparr>poi_id = 1, poi_purchase_order_id = 1, poi_product_id = 7, poi_quantity = 10,
           poi_unit_cost = 3 / 100, poi_batch_number = Some ''B1'', poi_expiry_date = None\<rparr>],
       product_batches :=
         [\<lparr>pb_id = 1, pb_product_id = 7, pb_batch_number = Some ''B1'', pb_expiry_date = None,
           pb_cost_price = 3 / 100, pb_selling_price = 4 / 100, pb_quantity = 10,
           pb_supplier_id = None\<rparr>],
       product_batches_id_seq := 2\<rparr>) 7 = 10"
proof -
  let ?item = "\<lparr>poi_id = 1, poi_purchase_order_id = 1, poi_product_id = 7, poi_quantity = 10,
                poi_unit_cost = 3 / 100, poi_batch_number = Some ''B1'', poi_expiry_date = None\<rparr>"
  let ?db = "empty_database\<lparr>profiles :=
                [\<lparr>profile_id = ''a1'', full_name = None, avatar_url = None,
                   profile_role = Super_Admin\<rparr>,
                  \<lparr>profile_id = ''c1'', full_name = None, avatar_url = None,
                   profile_role = Cashier\<rparr>],
              purchase_order_items :=
                [\<lparr>poi_id = 1, poi_purchase_order_id = 1, poi_product_id = 7, poi_quantity = 10,
                  poi_unit_cost = 3 / 100, poi_batch_number = Some ''B1'', poi_expiry_date = None\<rparr>]\<rparr>"
  have admitted: "managers_policy \<lparr>uid = Some ''a1'', bypassrls = False\<rparr> ?db"
    by (simp add: managers_policy_def get_my_role_def)
  have item: "find (\<lambda>i. poi_id i = 1) (purchase_order_items ?db) = Some ?item"
    by simp
  have cost: "numeric_10_2 (poi_unit_cost ?item) = Inr (poi_unit_cost ?item)"
    by (simp add: numeric_10_2_def numeric_round2_def floor_rat_numeral)
  have price: "\<bar>numeric_round2 (poi_unit_cost ?item * 1.25)\<bar> < 100000000"
    by (simp add: numeric_round2_def floor_rat_numeral)
  have seq: "product_batches_id_seq ?db \<notin> pb_id ` set (product_batches ?db)"
    by (simp add: empty_database_def)
  from purchase_receipt_creates_batch [OF admitted item cost price seq]
  show ?thesis
    by (simp add: update_stock_from_purchase_def empty_database_def numeric_10_2_def
        numeric_round2_def floor_rat_numeral on_hand_def managers_policy_def get_my_role_def)
qed

text \<open>
  A Super Admin receives an item of 10 units at a unit cost of 2: the batch is created
  with selling price 2.50 and the ledger stays empty.
\<close>

theorem purchase_receipt_writes_no_movement:
  "update_stock_from_purchase \<lparr>uid = Some ''a1'', bypassrls = False\<rparr> 1
     (empty_database\<lparr>profiles :=
         [\<lparr>profile_id = ''a1'', full_name = None, avatar_url = None,
            profile_role = Super_Admin\<rparr>,
           \<lparr>profile_id = ''c1'', full_name = None, avatar_url = None,
            profile_role = Cashier\<rparr>],
       purchase_order_items :=
         [\<lparr>poi_id = 1, poi_purchase_order_id = 1, poi_product_id = 7, poi_quantity = 10,
           poi_unit_cost = 2, poi_batch_number = None, poi_expiry_date = None\<rparr>]\<rparr>)
   = Inr
     (empty_database\<lparr>profiles :=
         [\<lparr>profile_id = ''a1'', full_name = None, avatar_url = None,
            profile_role = Super_Admin\<rparr>,
           \<lparr>profile_id = ''c1'', full_name = None, avatar_url = None,
            profile_role = Cashier\<rparr>],
       purchase_order_items :=
         [\<lparr>poi_id = 1, poi_purchase_order_id = 1, poi_product_id = 7, poi_quantity = 10,
           poi_unit_cost = 2, poi_batch_number = None, poi_expiry_date = None\<rparr>],
       product_batches :=
         [\<lparr>pb_id = 1, pb_product_id = 7, pb_batch_number = None, pb_expiry_date = None,
           pb_cost_price = 2, pb_selling_price = 5 / 2, pb_quantity = 10,
           pb_supplier_id = None\<rparr>],
       product_batches_id_seq := 2\<rparr>)
   \<and> inventory_movements
     (empty_database\<lparr>profiles :=
         [\<lparr>profile_id = ''a1'', full_name = None, avatar_url = None,
            profile_role = Super_Admin\<rparr>,
           \<lparr>profile_id = ''c1'', full_name = None, avatar_url = None,
            profile_role = Cashier\<rparr>],
       purchase_order_items :=
         [\<lparr>poi_id = 1, poi_purchase_order_id = 1, poi_product_id = 7, poi_quantity = 10,
           poi_unit_cost = 2, poi_batch_number = None, poi_expiry_date = None\<rparr>],
       product_batches :=
         [\<lparr>pb_id = 1, pb_product_id = 7, pb_batch_number = None, pb_expiry_date = None,
           pb_cost_price = 2, pb_selling_price = 5 / 2, pb_quantity = 10,
           pb_supplier_id = None\<rparr>],
       product_batches_id_seq := 2\<rparr>) = []"
  by (simp add: update_stock_from_purchase_def empty_database_def numeric_10_2_def
        numeric_round2_def floor_rat_numeral on_hand_def managers_policy_def get_my_role_def)

text \<open>
  Where the receipt fails: a caller whom the policy does not admit is refused, and an
  item whose marked-up price does not fit the column raises an overflow. No batch is
  stored in either case.
\<close>

lemma purchase_receipt_not_admitted:
  "\<not> managers_policy c db \<Longrightarrow> update_stock_from_purchase c p db = Inl insufficient_privilege"
  by (simp add: update_stock_from_purchase_def)

lemma purchase_receipt_price_overflow:
  assumes "managers_policy c db"
      and "find (\<lambda>i. poi_id i = p) (purchase_order_items db) = Some item"
      and "numeric_10_2 (poi_unit_cost item) = Inr (poi_unit_cost item)"
      and "\<not> \<bar>numeric_round2 (poi_unit_cost item * 1.25)\<bar> < 100000000"
  shows "update_stock_from_purchase c p db = Inl numeric_value_out_of_range"
  using assms by (simp add: update_stock_from_purchase_def numeric_10_2_def)

end
